theory Spec2Isabelle
  imports Main "HOL-Library.Word" "HOL-Library.Multiset"
begin

section \<open>Python values\<close>

unbundle bit_operations_syntax

text \<open>
  A Python \<^verbatim>\<open>str\<close> is a sequence of Unicode code points, so it is a list of
  naturals here: \<^verbatim>\<open>len\<close>, slicing and \<^verbatim>\<open>strip\<close> count code points, and the
  em dash of the citation format is the one code point 8212. \<open>lit\<close> turns an ASCII
  literal into such a string.
\<close>

type_synonym pystr = "nat list"

definition lit :: "string \<Rightarrow> pystr" where
  "lit s = map of_char s"

text \<open>
  The characters that \<^verbatim>\<open>str.strip()\<close> removes when called without an argument
  (CPython's whitespace table for \<^verbatim>\<open>str\<close>).
\<close>

definition isspace :: "nat \<Rightarrow> bool" where
  "isspace c \<longleftrightarrow>
     (9 \<le> c \<and> c \<le> 13) \<or> (28 \<le> c \<and> c \<le> 32) \<or> c = 133 \<or> c = 160 \<or> c = 5760 \<or>
     (8192 \<le> c \<and> c \<le> 8202) \<or> c = 8232 \<or> c = 8233 \<or> c = 8239 \<or> c = 8287 \<or>
     c = 12288"

definition strip :: "pystr \<Rightarrow> pystr" where
  "strip s = rev (dropWhile isspace (rev (dropWhile isspace s)))"

text \<open>Decimal rendering of a Python \<^verbatim>\<open>int\<close>, as \<^verbatim>\<open>str\<close> and \<^verbatim>\<open>format\<close> give it.\<close>

fun str_nat :: "nat \<Rightarrow> pystr" where
  "str_nat n = (if n < 10 then [48 + n] else str_nat (n div 10) @ [48 + n mod 10])"

declare str_nat.simps [simp del]

definition str_int :: "int \<Rightarrow> pystr" where
  "str_int i = (if i < 0 then 45 # str_nat (nat (- i)) else str_nat (nat i))"

text \<open>
  The values \<^verbatim>\<open>r.json()\<close> can return. A \<^verbatim>\<open>float\<close> is its IEEE binary64 bit
  pattern; a \<^verbatim>\<open>dict\<close> is its items in insertion order (its keys are distinct, and
  a lookup reads the first binding of a key).
\<close>

datatype pyval =
    PNone
  | PBool bool
  | PInt int
  | PFloat "64 word"
  | PStr pystr
  | PList "pyval list"
  | PDict "(pystr \<times> pyval) list"

text \<open>
  A Python \<^verbatim>\<open>float\<close> is an IEEE binary64, given by its bit pattern; a numpy scalar is
  given by the binary64 of the same value. A NaN has all exponent bits set and a
  mantissa that is not zero. \<open>float_key\<close> puts the other values in their numeric order
  (the two zeros together), so that on them \<^verbatim>\<open><\<close>, \<^verbatim>\<open>>=\<close> and \<^verbatim>\<open>==\<close> compare the
  keys; every comparison with a NaN is false.
\<close>

type_synonym pyfloat = "64 word"

definition is_nan :: "pyfloat \<Rightarrow> bool" where
  "is_nan x \<longleftrightarrow> 0x7FF0000000000000 < (x AND 0x7FFFFFFFFFFFFFFF)"

definition float_key :: "pyfloat \<Rightarrow> int" where
  "float_key x =
     (if bit x 63 then - uint (x AND 0x7FFFFFFFFFFFFFFF) else uint (x AND 0x7FFFFFFFFFFFFFFF))"

definition float_ge :: "pyfloat \<Rightarrow> pyfloat \<Rightarrow> bool" where
  "float_ge a b \<longleftrightarrow> \<not> is_nan a \<and> \<not> is_nan b \<and> float_key b \<le> float_key a"

definition float_eq :: "pyfloat \<Rightarrow> pyfloat \<Rightarrow> bool" where
  "float_eq a b \<longleftrightarrow> \<not> is_nan a \<and> \<not> is_nan b \<and> float_key a = float_key b"

text \<open>
  Exceptions. The first three are raised by the interpreter on the values above. A call
  into a library (urllib, httpx, json, sentence-transformers) has a result of type
  \<open>pystr + 'a\<close>: \<open>Inl m\<close> when it raises an exception \<open>e\<close> with
  \<^verbatim>\<open>str(e)\<close> equal to \<open>m\<close>, which is \<open>Raised m\<close> once it travels with the others.
  All of them are instances of \<^verbatim>\<open>Exception\<close>, which is what the module's handlers catch.
\<close>

datatype exn = AttributeError | TypeError | IndexError | Raised pystr

fun truthy :: "pyval \<Rightarrow> bool" where
  "truthy PNone = False"
| "truthy (PBool b) = b"
| "truthy (PInt i) = (i \<noteq> 0)"
| "truthy (PFloat x) = (x \<noteq> 0 \<and> x \<noteq> 0x8000000000000000)"
| "truthy (PStr s) = (s \<noteq> [])"
| "truthy (PList xs) = (xs \<noteq> [])"
| "truthy (PDict kvs) = (kvs \<noteq> [])"

text \<open>\<^verbatim>\<open>a or b\<close>\<close>

definition py_or :: "pyval \<Rightarrow> pyval \<Rightarrow> pyval" where
  "py_or a b = (if truthy a then a else b)"

text \<open>\<^verbatim>\<open>obj.get(key, default)\<close>: only a dict has the method.\<close>

fun dict_get :: "pyval \<Rightarrow> pystr \<Rightarrow> pyval \<Rightarrow> exn + pyval" where
  "dict_get (PDict kvs) k d = Inr (case map_of kvs k of None \<Rightarrow> d | Some v \<Rightarrow> v)"
| "dict_get v k d = Inl AttributeError"

text \<open>
  \<^verbatim>\<open>for x in obj\<close>: the elements of a list, the keys of a dict, the characters of a
  string; nothing else here can be iterated.
\<close>

fun py_iter :: "pyval \<Rightarrow> exn + pyval list" where
  "py_iter (PList xs) = Inr xs"
| "py_iter (PDict kvs) = Inr (map (\<lambda>kv. PStr (fst kv)) kvs)"
| "py_iter (PStr s) = Inr (map (\<lambda>c. PStr [c]) s)"
| "py_iter v = Inl TypeError"

text \<open>
  Sequencing of steps that may raise: the first exception ends the sequence. \<open>raised\<close>
  takes the result of a library call into such a sequence.
\<close>

definition bind :: "exn + 'a \<Rightarrow> ('a \<Rightarrow> exn + 'b) \<Rightarrow> exn + 'b" where
  "bind x f = (case x of Inl e \<Rightarrow> Inl e | Inr v \<Rightarrow> f v)"

definition raised :: "pystr + 'a \<Rightarrow> exn + 'a" where
  "raised x = (case x of Inl m \<Rightarrow> Inl (Raised m) | Inr v \<Rightarrow> Inr v)"

text \<open>
  \<^verbatim>\<open>str(v)\<close>, which is also what an f-string field \<^verbatim>\<open>{v}\<close> inserts; the
  \<^verbatim>\<open>repr\<close> of floats and containers is a parameter.
\<close>

fun py_str :: "(pyval \<Rightarrow> pystr) \<Rightarrow> pyval \<Rightarrow> pystr" where
  "py_str rp PNone = lit ''None''"
| "py_str rp (PBool b) = (if b then lit ''True'' else lit ''False'')"
| "py_str rp (PInt i) = str_int i"
| "py_str rp (PStr s) = s"
| "py_str rp v = rp v"

section \<open>The world outside the module\<close>

text \<open>
  The embedding model is an opaque object with one method, which gives one vector of
  floats for each text, or raises.
\<close>

datatype model = Model (encode: "pyval list \<Rightarrow> pystr + pyfloat list list")

text \<open>
  \<^verbatim>\<open>sorted\<close> on keys that \<^verbatim>\<open><\<close> does not order, which is the case as soon as one
  of them is a NaN: the result depends on the comparisons the interpreter's sorting
  algorithm happens to make, so it is a parameter; whatever the algorithm, the result is a
  rearrangement of the list. The function takes the list and the keys of its elements.
\<close>

typedef sorter = "{f :: nat list \<Rightarrow> pyfloat list \<Rightarrow> nat list. \<forall>xs ks. mset (f xs ks) = mset xs}"
  by (rule exI [of _ "\<lambda>xs ks. xs"]) simp

setup_lifting type_definition_sorter

text \<open>
  An \<^verbatim>\<open>httpx.Response\<close>: its status code, the message of the
  \<^verbatim>\<open>HTTPStatusError\<close> that \<^verbatim>\<open>raise_for_status()\<close> builds for it, and what
  \<^verbatim>\<open>json()\<close> does (the decoded body, or the decoder's exception).
\<close>

record response =
  status_code :: nat
  status_error :: pystr
  json :: "pystr + pyval"

text \<open>
  What the module calls but does not define, as it behaves during one request:
  \<^verbatim>\<open>os.environ\<close>, the import and construction of the sentence transformer,
  \<^verbatim>\<open>urllib.parse.quote_plus\<close>, \<^verbatim>\<open>client.get\<close> (an exception stands for a
  timeout or a connection failure), \<^verbatim>\<open>numpy.dot\<close> (which raises on vectors of
  different shapes), \<^verbatim>\<open>numpy.linalg.norm\<close>, the product, sum and quotient of numpy
  scalars with their rounding, \<^verbatim>\<open>sorted\<close> on unordered keys, and \<^verbatim>\<open>repr\<close> of floats,
  lists and dicts.
\<close>

record externals =
  environ :: "pystr \<rightharpoonup> pystr"
  SentenceTransformer :: "pystr + model"
  quote_plus :: "pystr \<Rightarrow> pystr + pystr"
  client_get :: "pystr \<Rightarrow> pystr + response"
  np_dot :: "pyfloat list \<Rightarrow> pyfloat list \<Rightarrow> pystr + pyfloat"
  linalg_norm :: "pyfloat list \<Rightarrow> pyfloat"
  np_mul :: "pyfloat \<Rightarrow> pyfloat \<Rightarrow> pyfloat"
  np_add :: "pyfloat \<Rightarrow> pyfloat \<Rightarrow> pyfloat"
  np_div :: "pyfloat \<Rightarrow> pyfloat \<Rightarrow> pyfloat"
  sorted_unordered :: sorter
  py_repr :: "pyval \<Rightarrow> pystr"

text \<open>
  The module's two globals (\<open>EMB_LOADING\<close> is \<^verbatim>\<open>_EMB_LOADING\<close>), and a record of what
  the process has done so far: how often the loading of the model was entered, and the
  URLs requested, oldest first.
\<close>

record world =
  EMB_MODEL :: "model option"
  EMB_LOADING :: bool
  load_attempts :: nat
  requests_sent :: "pystr list"

definition init_world :: world where
  "init_world = \<lparr>EMB_MODEL = None, EMB_LOADING = False, load_attempts = 0, requests_sent = []\<rparr>"

section \<open>The embedding model\<close>

definition embeddings_enabled :: "externals \<Rightarrow> bool" where
  "embeddings_enabled ext \<longleftrightarrow>
     (case environ ext (lit ''ENABLE_EMBEDDINGS'') of None \<Rightarrow> lit ''0'' | Some v \<Rightarrow> v) = lit ''1''"

definition get_embedding_model :: "externals \<Rightarrow> world \<Rightarrow> world \<times> model option" where
  "get_embedding_model ext w =
     (if \<not> embeddings_enabled ext then (w, None)
      else if Option.is_none (EMB_MODEL w) \<and> \<not> EMB_LOADING w then
        (let w1 = w\<lparr>EMB_LOADING := True, load_attempts := Suc (load_attempts w)\<rparr>;
             w2 = (case SentenceTransformer ext of
                     Inr m \<Rightarrow> w1\<lparr>EMB_MODEL := Some m\<rparr>
                   | Inl e \<Rightarrow> w1\<lparr>EMB_MODEL := None\<rparr>);
             w3 = w2\<lparr>EMB_LOADING := False\<rparr>
         in (w3, EMB_MODEL w3))
      else (w, EMB_MODEL w))"

section \<open>The search client\<close>

record QueryRequest =
  symptoms :: pystr
  top_k :: int

text \<open>The request model's constructor: \<^verbatim>\<open>top_k: int = 5\<close>.\<close>

definition new_QueryRequest :: "pystr \<Rightarrow> int option \<Rightarrow> QueryRequest" where
  "new_QueryRequest s k = \<lparr>symptoms = s, top_k = (case k of None \<Rightarrow> 5 | Some n \<Rightarrow> n)\<rparr>"

definition EUROPE_PMC_SEARCH :: "pystr \<Rightarrow> pystr \<Rightarrow> pystr" where
  "EUROPE_PMC_SEARCH q n =
     lit ''https://www.ebi.ac.uk/europepmc/webservices/rest/search?query='' @ q @
     lit ''&format=json&pageSize='' @ n"

text \<open>\<^verbatim>\<open>raise_for_status()\<close> of httpx raises unless the status is 2xx.\<close>

definition raise_for_status :: "response \<Rightarrow> pystr + unit" where
  "raise_for_status r =
     (if 200 \<le> status_code r \<and> status_code r < 300 then Inr ()
      else Inl (status_error r))"

definition fetch_europepmc :: "externals \<Rightarrow> world \<Rightarrow> pystr \<Rightarrow> int \<Rightarrow> world \<times> (pystr + pyval)" where
  "fetch_europepmc ext w query n =
     (case quote_plus ext query of
        Inl e \<Rightarrow> (w, Inl e)
      | Inr q \<Rightarrow>
          (let url = EUROPE_PMC_SEARCH q (str_int n);
               w1 = w\<lparr>requests_sent := requests_sent w @ [url]\<rparr>
           in case client_get ext url of
                Inl e \<Rightarrow> (w1, Inl e)
              | Inr r \<Rightarrow>
                  (case raise_for_status r of
                     Inl e \<Rightarrow> (w1, Inl e)
                   | Inr u \<Rightarrow> (w1, json r))))"

section \<open>The query pipeline\<close>

record match =
  title :: pyval
  abstract :: pyval
  snippet :: pystr
  journal :: pyval
  year :: pyval
  source :: pystr
  url :: pyval

record payload =
  summary :: pystr
  matches :: "match list"
  citations :: "pystr list"

text \<open>
  What the endpoint raises: an \<^verbatim>\<open>HTTPException\<close>, which the framework turns into a
  response of that status with that detail, or any other exception, which it turns into
  a 500.
\<close>

datatype failure = HTTPException nat pystr | Unhandled exn

text \<open>
  \<^verbatim>\<open>abstract[:400] + ("..." if len(abstract) > 400 else "")\<close>. After
  \<^verbatim>\<open>or ""\<close> the abstract is a string or a truthy value of another type; of those,
  numbers and booleans cannot be sliced, a sliced list cannot be added to a string, and
  a dict cannot be indexed by a slice (a \<^verbatim>\<open>KeyError\<close> instead from Python 3.12 on).
\<close>

fun make_snippet :: "pyval \<Rightarrow> exn + pystr" where
  "make_snippet (PStr s) = Inr (take 400 s @ (if 400 < length s then lit ''...'' else []))"
| "make_snippet v = Inl TypeError"

text \<open>One round of the loop over the hits: the match record and the text to embed.\<close>

definition parse_hit :: "externals \<Rightarrow> pyval \<Rightarrow> exn + (match \<times> pyval)" where
  "parse_hit ext hit =
     bind (dict_get hit (lit ''title'') PNone) (\<lambda>title.
     bind (dict_get hit (lit ''abstractText'') PNone) (\<lambda>v1.
     bind (dict_get hit (lit ''journalTitle'') PNone) (\<lambda>v2.
     bind (dict_get hit (lit ''pubYear'') PNone) (\<lambda>v3.
     bind (dict_get hit (lit ''pmcid'') PNone) (\<lambda>v4.
     bind (dict_get hit (lit ''id'') PNone) (\<lambda>v5.
     bind (dict_get hit (lit ''source'') PNone) (\<lambda>v6.
       let abstract = py_or v1 (PStr []);
           journal = py_or v2 (PStr []);
           year = py_or v3 (PStr []);
           pmcid = py_or v4 v5;
           url = py_or v6 (PStr (lit ''https://europepmc.org/article/pmc/'' @
                                 py_str (py_repr ext) pmcid))
       in bind (make_snippet abstract) (\<lambda>snippet.
            Inr (\<lparr>title = title, abstract = abstract, snippet = snippet,
                  journal = journal, year = year, source = lit ''EuropePMC'', url = url\<rparr>,
                 py_or (py_or abstract title) (PStr []))))))))))"

fun hits_loop ::
  "externals \<Rightarrow> pyval list \<Rightarrow> match list \<Rightarrow> pyval list \<Rightarrow> exn + (match list \<times> pyval list)" where
  "hits_loop ext [] results abstracts = Inr (results, abstracts)"
| "hits_loop ext (hit # hits) results abstracts =
     bind (parse_hit ext hit) (\<lambda>(m, a). hits_loop ext hits (results @ [m]) (abstracts @ [a]))"

text \<open>
  The hits the loop can turn into match records: JSON objects whose abstract, after
  \<^verbatim>\<open>or ""\<close>, is a string.
\<close>

fun well_formed_hit :: "pyval \<Rightarrow> bool" where
  "well_formed_hit (PDict kvs) =
     (case py_or (case map_of kvs (lit ''abstractText'') of None \<Rightarrow> PNone | Some v \<Rightarrow> v) (PStr []) of
        PStr s \<Rightarrow> True
      | _ \<Rightarrow> False)"
| "well_formed_hit v = False"

text \<open>\<^verbatim>\<open>data.get("resultList", {}).get("result", [])\<close>, as the loop iterates it.\<close>

definition result_hits :: "pyval \<Rightarrow> exn + pyval list" where
  "result_hits data =
     bind (dict_get data (lit ''resultList'') (PDict [])) (\<lambda>rl.
     bind (dict_get rl (lit ''result'') (PList [])) py_iter)"

subsection \<open>Ranking\<close>

text \<open>
  The scoring loop: the score of one document is
  \<^verbatim>\<open>float(np.dot(q, emb) / (norm(q) * norm(emb) + 1e-10))\<close>, every operation being
  numpy's; \<open>epsilon\<close> is the float \<^verbatim>\<open>1e-10\<close>, and \<^verbatim>\<open>float\<close> does not change the
  value.
\<close>

definition epsilon :: pyfloat where
  "epsilon = 0x3DDB7CDFD9D7BDBB"

fun score_loop ::
  "externals \<Rightarrow> pyfloat list \<Rightarrow> pyfloat list list \<Rightarrow> pyfloat list \<Rightarrow> exn + pyfloat list" where
  "score_loop ext query_emb [] scores = Inr scores"
| "score_loop ext query_emb (emb # embs) scores =
     bind (raised (np_dot ext query_emb emb)) (\<lambda>d.
       score_loop ext query_emb embs
         (scores @
          [np_div ext d
             (np_add ext (np_mul ext (linalg_norm ext query_emb) (linalg_norm ext emb))
                epsilon)]))"

text \<open>
  \<^verbatim>\<open>sorted(xs, key=lambda i: scores[i], reverse=True)\<close>: every key is computed
  first (an index past the scores raises). When no key is a NaN, \<^verbatim>\<open><\<close> orders the keys
  and the result is the one of every stable sort: the list is reversed, sorted stably in
  ascending order of the keys, and reversed again.
\<close>

definition sorted_reverse :: "externals \<Rightarrow> nat list \<Rightarrow> pyfloat list \<Rightarrow> exn + nat list" where
  "sorted_reverse ext xs scores =
     (if \<not> list_all (\<lambda>i. i < length scores) xs then Inl IndexError
      else if list_ex (\<lambda>i. is_nan (scores ! i)) xs
      then Inr (Rep_sorter (sorted_unordered ext) xs (map (\<lambda>i. scores ! i) xs))
      else Inr (rev (sort_key (\<lambda>i. float_key (scores ! i)) (rev xs))))"

text \<open>The scores of lines 87 to 95.\<close>

definition rank_scores ::
  "externals \<Rightarrow> model \<Rightarrow> pystr \<Rightarrow> pyval list \<Rightarrow> exn + pyfloat list" where
  "rank_scores ext m query abstracts =
     bind (raised (encode m [PStr query])) (\<lambda>q_embs.
     bind (case q_embs of [] \<Rightarrow> Inl IndexError | q # qs \<Rightarrow> Inr q) (\<lambda>query_emb.
     bind (raised (encode m abstracts)) (\<lambda>doc_embs.
       score_loop ext query_emb doc_embs [])))"

text \<open>The body of the \<^verbatim>\<open>try\<close>, after the model has been fetched.\<close>

definition rank_results ::
  "externals \<Rightarrow> model option \<Rightarrow> pystr \<Rightarrow> match list \<Rightarrow> pyval list \<Rightarrow> exn + match list" where
  "rank_results ext model query results abstracts =
     (case model of
        None \<Rightarrow> Inr results
      | Some m \<Rightarrow>
          if abstracts = [] then Inr results
          else
            bind (rank_scores ext m query abstracts) (\<lambda>scores.
            bind (sorted_reverse ext [0..<length results] scores) (\<lambda>order.
              Inr (map (\<lambda>i. results ! i) order))))"

subsection \<open>The endpoint\<close>

text \<open>
  The model ends where the function returns or raises; how the framework encodes the
  returned payload is outside it.
\<close>

definition summary_placeholder :: "nat \<Rightarrow> pystr" where
  "summary_placeholder n =
     lit ''SUMMARY (placeholder): Found '' @ str_nat n @
     lit '' articles. Replace this with LLM-generated educational summary that cites sources.''"

text \<open>The citation of one match; the separator is space, em dash (U+2014), space.\<close>

definition citation :: "externals \<Rightarrow> match \<Rightarrow> pystr" where
  "citation ext r =
     py_str (py_repr ext) (title r) @ [32, 8212, 32] @
     py_str (py_repr ext) (journal r) @ lit '' ('' @
     py_str (py_repr ext) (year r) @ lit '')'' @ [32, 8212, 32] @
     py_str (py_repr ext) (url r)"

definition query_literature ::
  "externals \<Rightarrow> world \<Rightarrow> QueryRequest \<Rightarrow> world \<times> (failure + payload)" where
  "query_literature ext w req =
     (let stripped = strip (symptoms req) in
      if stripped = [] then (w, Inl (HTTPException 400 (lit ''No symptoms provided'')))
      else
        case fetch_europepmc ext w stripped (top_k req) of
          (w1, Inl m) \<Rightarrow> (w1, Inl (HTTPException 502 m))
        | (w1, Inr data) \<Rightarrow>
            (case bind (result_hits data) (\<lambda>hits. hits_loop ext hits [] []) of
               Inl e \<Rightarrow> (w1, Inl (Unhandled e))
             | Inr (results, abstracts) \<Rightarrow>
                 (let (w2, model) = get_embedding_model ext w1;
                      results = (case rank_results ext model stripped results abstracts of
                                   Inl e \<Rightarrow> results
                                 | Inr ranked \<Rightarrow> ranked)
                  in (w2, Inr \<lparr>summary = summary_placeholder (length results),
                                matches = results,
                                citations = map (citation ext) results\<rparr>))))"

section \<open>Requests over the life of the process\<close>

text \<open>
  The server hands the requests to the endpoint one after another; each runs in the
  world its predecessor left, against the externals as they are at that moment.
\<close>

fun serve :: "world \<Rightarrow> (externals \<times> QueryRequest) list \<Rightarrow> world" where
  "serve w [] = w"
| "serve w (er # rest) = serve (fst (query_literature (fst er) w (snd er))) rest"

text \<open>
  A request reaches the ranking step when lines 52 to 81 go through: the symptoms are not
  blank, the search answers, and the loop turns every hit into a record.
\<close>

definition reaches_ranking :: "externals \<Rightarrow> world \<Rightarrow> QueryRequest \<Rightarrow> bool" where
  "reaches_ranking ext w req \<longleftrightarrow>
     strip (symptoms req) \<noteq> [] \<and>
     (case snd (fetch_europepmc ext w (strip (symptoms req)) (top_k req)) of
        Inl m \<Rightarrow> False
      | Inr data \<Rightarrow>
          (case bind (result_hits data) (\<lambda>hits. hits_loop ext hits [] []) of
             Inl e \<Rightarrow> False
           | Inr ra \<Rightarrow> True))"

section \<open>Example worlds\<close>

text \<open>
  Concrete externals for the examples below. \<open>ascii_quote_plus\<close> is
  \<^verbatim>\<open>quote_plus\<close> on strings of ASCII letters, digits and spaces. The arithmetic is
  binary64 arithmetic at the arguments the examples use, where it is exact: the floats
  0, 1, \<open>f_big\<close> (2 to the power 60) and \<open>f_big2\<close> (its square), the epsilon, which a
  sum with \<open>f_big2\<close> absorbs, and a
  NaN, which every operation hands on. At other arguments the functions give a NaN, which
  is not numpy's value there. \<open>keep_order\<close> is what \<^verbatim>\<open>sorted\<close> with
  \<^verbatim>\<open>reverse=True\<close> does to two elements whose second key is a NaN (the reversed list
  is taken for one ascending run, since neither comparison with the NaN holds); it
  stands for the interpreter's sort at such a list only.
\<close>

definition ascii_quote_plus :: "pystr \<Rightarrow> pystr + pystr" where
  "ascii_quote_plus s = Inr (map (\<lambda>c. if c = 32 then 43 else c) s)"

definition f_one :: pyfloat where
  "f_one = 0x3FF0000000000000"

definition f_big :: pyfloat where
  "f_big = 0x43B0000000000000"

definition f_big2 :: pyfloat where
  "f_big2 = 0x4770000000000000"

definition f_nan :: pyfloat where
  "f_nan = 0x7FF8000000000000"

definition demo_mul :: "pyfloat \<Rightarrow> pyfloat \<Rightarrow> pyfloat" where
  "demo_mul x y =
     (if x = f_big \<and> y = f_big then f_big2
      else if x = f_big \<and> y = 0 then 0
      else f_nan)"

definition demo_add :: "pyfloat \<Rightarrow> pyfloat \<Rightarrow> pyfloat" where
  "demo_add x y =
     (if x = f_big2 \<and> y = epsilon then f_big2
      else if x = 0 \<and> y = epsilon then epsilon
      else f_nan)"

definition demo_div :: "pyfloat \<Rightarrow> pyfloat \<Rightarrow> pyfloat" where
  "demo_div x y =
     (if x = f_big2 \<and> y = f_big2 then f_one
      else if x = 0 \<and> y = epsilon then 0
      else f_nan)"

definition demo_dot :: "pyfloat list \<Rightarrow> pyfloat list \<Rightarrow> pystr + pyfloat" where
  "demo_dot a b =
     (case (a, b) of
        ([x], [y]) \<Rightarrow> Inr (demo_mul x y)
      | _ \<Rightarrow> Inl (lit ''shapes not aligned''))"

definition demo_norm :: "pyfloat list \<Rightarrow> pyfloat" where
  "demo_norm a = (case a of [x] \<Rightarrow> x AND 0x7FFFFFFFFFFFFFFF | _ \<Rightarrow> f_nan)"

lift_definition keep_order :: sorter is "\<lambda>xs ks. xs"
  by simp

definition hit_a :: pyval where
  "hit_a = PDict [(lit ''title'', PStr (lit ''Flu'')),
                  (lit ''abstractText'', PStr (lit ''alpha'')),
                  (lit ''journalTitle'', PStr (lit ''BMJ'')),
                  (lit ''pubYear'', PStr (lit ''2020'')),
                  (lit ''pmcid'', PStr (lit ''PMC1''))]"

definition hit_b :: pyval where
  "hit_b = PDict [(lit ''abstractText'', PStr (lit ''beta'')), (lit ''id'', PInt 7)]"

definition hit_c :: pyval where
  "hit_c = PDict [(lit ''title'', PStr (lit ''Cough'')),
                  (lit ''source'', PStr (lit ''MED''))]"

text \<open>A hit whose abstract is a number.\<close>

definition hit_bad :: pyval where
  "hit_bad = PDict [(lit ''abstractText'', PInt 5)]"

definition hit_long :: pyval where
  "hit_long = PDict [(lit ''abstractText'', PStr (replicate 401 97))]"

definition search_body :: "pyval list \<Rightarrow> pyval" where
  "search_body hits = PDict [(lit ''resultList'', PDict [(lit ''result'', PList hits)])]"

definition ok_response :: "pyval \<Rightarrow> response" where
  "ok_response body = \<lparr>status_code = 200, status_error = [], json = Inr body\<rparr>"

text \<open>
  Two models that embed a text into one dimension: \<open>f_big\<close> for an odd length, and for
  an even one 0, respectively a NaN.
\<close>

definition parity_model :: model where
  "parity_model =
     Model (\<lambda>texts. Inr (map (\<lambda>t. case t of PStr s \<Rightarrow> [if odd (length s) then f_big else 0]
                                       | _ \<Rightarrow> [0]) texts))"

definition nan_model :: model where
  "nan_model =
     Model (\<lambda>texts. Inr (map (\<lambda>t. case t of PStr s \<Rightarrow> [if odd (length s) then f_big else f_nan]
                                       | _ \<Rightarrow> [f_nan]) texts))"

text \<open>
  Embeddings switched off, and the search service answering with the given body.
\<close>

definition ext_plain :: "pyval \<Rightarrow> externals" where
  "ext_plain body =
     \<lparr>environ = Map.empty, SentenceTransformer = Inl (lit ''No module named sentence_transformers''),
      quote_plus = ascii_quote_plus, client_get = (\<lambda>url. Inr (ok_response body)),
      np_dot = demo_dot, linalg_norm = demo_norm, np_mul = demo_mul, np_add = demo_add,
      np_div = demo_div, sorted_unordered = keep_order, py_repr = (\<lambda>v. lit ''?'')\<rparr>"

text \<open>Embeddings switched on, with the given outcome of loading the model.\<close>

definition ext_embed :: "pystr + model \<Rightarrow> pyval \<Rightarrow> externals" where
  "ext_embed load body =
     (ext_plain body)\<lparr>environ := [lit ''ENABLE_EMBEDDINGS'' \<mapsto> lit ''1''],
                       SentenceTransformer := load\<rparr>"

text \<open>The search service failing: no connection, or a response that is not a success.\<close>

definition ext_timeout :: externals where
  "ext_timeout = (ext_plain PNone)\<lparr>client_get := (\<lambda>url. Inl (lit ''timed out''))\<rparr>"

definition ext_503 :: externals where
  "ext_503 =
     (ext_plain PNone)\<lparr>client_get := (\<lambda>url.
        Inr \<lparr>status_code = 503, status_error = lit ''Server error 503'',
             json = Inl (lit ''Expecting value'')\<rparr>)\<rparr>"

definition fever :: QueryRequest where
  "fever = new_QueryRequest (lit ''fever cough'') (Some 3)"

definition fever_url :: pystr where
  "fever_url = lit ''https://www.ebi.ac.uk/europepmc/webservices/rest/search?query=fever+cough&format=json&pageSize=3''"

text \<open>A model whose every call fails, and the match records of the three hits.\<close>

definition broken_model :: model where
  "broken_model = Model (\<lambda>texts. Inl (lit ''out of memory''))"

definition match_a :: match where
  "match_a = \<lparr>title = PStr (lit ''Flu''), abstract = PStr (lit ''alpha''), snippet = lit ''alpha'',
               journal = PStr (lit ''BMJ''), year = PStr (lit ''2020''), source = lit ''EuropePMC'',
               url = PStr (lit ''https://europepmc.org/article/pmc/PMC1'')\<rparr>"

definition match_b :: match where
  "match_b = \<lparr>title = PNone, abstract = PStr (lit ''beta''), snippet = lit ''beta'',
               journal = PStr [], year = PStr [], source = lit ''EuropePMC'',
               url = PStr (lit ''https://europepmc.org/article/pmc/7'')\<rparr>"

definition match_c :: match where
  "match_c = \<lparr>title = PStr (lit ''Cough''), abstract = PStr [], snippet = [],
               journal = PStr [], year = PStr [], source = lit ''EuropePMC'',
               url = PStr (lit ''MED'')\<rparr>"

section \<open>Basic facts\<close>

lemma strip_blank: "list_all isspace s \<Longrightarrow> strip s = []"
  by (auto simp: strip_def list_all_iff dest: set_dropWhileD)

lemma fetch_world:
  "quote_plus ext query = Inr q \<Longrightarrow>
   fst (fetch_europepmc ext w query n) =
     w\<lparr>requests_sent := requests_sent w @ [EUROPE_PMC_SEARCH q (str_int n)]\<rparr>"
  by (simp add: fetch_europepmc_def Let_def split: sum.splits)

lemma fetch_raises:
  assumes "quote_plus ext query = Inr q"
    and "client_get ext (EUROPE_PMC_SEARCH q (str_int n)) = Inl m"
  shows "snd (fetch_europepmc ext w query n) = Inl m"
  using assms by (simp add: fetch_europepmc_def Let_def)

lemma fetch_status:
  assumes "quote_plus ext query = Inr q"
    and "client_get ext (EUROPE_PMC_SEARCH q (str_int n)) = Inr r"
    and "\<not> (200 \<le> status_code r \<and> status_code r < 300)"
  shows "snd (fetch_europepmc ext w query n) = Inl (status_error r)"
  using assms by (auto simp: fetch_europepmc_def raise_for_status_def Let_def)

lemma query_fetch_failed:
  assumes "strip (symptoms req) \<noteq> []"
    and "snd (fetch_europepmc ext w (strip (symptoms req)) (top_k req)) = Inl m"
  shows "snd (query_literature ext w req) = Inl (HTTPException 502 m)"
  using assms
  by (cases "fetch_europepmc ext w (strip (symptoms req)) (top_k req)")
     (simp add: query_literature_def Let_def)

lemma get_model_requests:
  "requests_sent (fst (get_embedding_model ext w)) = requests_sent w"
  by (simp add: get_embedding_model_def Let_def split: sum.splits)

lemma parse_hit_snippet:
  "parse_hit ext hit = Inr (m, a) \<Longrightarrow> make_snippet (abstract m) = Inr (snippet m)"
  by (cases hit) (auto simp: parse_hit_def bind_def Let_def split: sum.splits)

lemma make_snippet_Inr:
  "make_snippet v = Inr t \<Longrightarrow>
   \<exists>s. v = PStr s \<and> t = (if 400 < length s then take 400 s @ lit ''...'' else s)"
  by (cases v) auto

lemma parse_hit_title:
  "parse_hit ext (PDict kvs) = Inr (m, a) \<Longrightarrow>
   title m = (case map_of kvs (lit ''title'') of None \<Rightarrow> PNone | Some v \<Rightarrow> v)"
  by (auto simp: parse_hit_def bind_def Let_def split: sum.splits)

text \<open>The loop body succeeds on exactly the well-formed hits.\<close>

lemma parse_hit_ok_iff:
  "(\<exists>m a. parse_hit ext hit = Inr (m, a)) \<longleftrightarrow> well_formed_hit hit"
  by (cases hit)
     (auto simp: parse_hit_def bind_def Let_def split: sum.splits pyval.splits option.splits)

section \<open>Input validation and the search step\<close>

text \<open>
  Claim C3. When the symptoms field is empty or holds only whitespace, the endpoint
  raises the HTTP error 400 with the detail "No symptoms provided", and the world is
  left as it was: in particular no URL has been requested.
\<close>

theorem blank_symptoms_give_400:
  "list_all isspace (symptoms req) \<Longrightarrow>
   query_literature ext w req = (w, Inl (HTTPException 400 (lit ''No symptoms provided''))) \<and>
   requests_sent (fst (query_literature ext w req)) = requests_sent w"
  by (simp add: query_literature_def strip_blank)

theorem blank_symptoms_give_400_witness:
  "list_all isspace (symptoms (new_QueryRequest (lit ''   '') None)) \<and>
   query_literature (ext_plain PNone) init_world (new_QueryRequest (lit ''   '') None)
     = (init_world, Inl (HTTPException 400 (lit ''No symptoms provided''))) \<and>
   requests_sent
     (fst (query_literature (ext_plain PNone) init_world (new_QueryRequest (lit ''   '') None))) = []"
  using blank_symptoms_give_400 [of "new_QueryRequest (lit ''   '') None" "ext_plain PNone" init_world]
  by (simp add: new_QueryRequest_def lit_def isspace_def init_world_def)

text \<open>
  Claim C2. When the symptoms are not blank and the outbound call raises (a timeout, a
  failed connection) or comes back with a status outside 2xx, the endpoint raises the
  HTTP error 502 whose detail is the message of the upstream failure; nothing is left
  unhandled.
\<close>

theorem search_failure_gives_502:
  assumes "strip (symptoms req) \<noteq> []"
    and "quote_plus ext (strip (symptoms req)) = Inr q"
    and "client_get ext (EUROPE_PMC_SEARCH q (str_int (top_k req))) = Inl m \<or>
         (\<exists>r. client_get ext (EUROPE_PMC_SEARCH q (str_int (top_k req))) = Inr r \<and>
              \<not> (200 \<le> status_code r \<and> status_code r < 300) \<and> status_error r = m)"
  shows "snd (query_literature ext w req) = Inl (HTTPException 502 m)"
proof -
  have "snd (fetch_europepmc ext w (strip (symptoms req)) (top_k req)) = Inl m"
    using assms(2,3) fetch_raises fetch_status by blast
  with assms(1) show ?thesis by (rule query_fetch_failed)
qed

theorem search_failure_gives_502_witness:
  "strip (symptoms fever) \<noteq> [] \<and>
   quote_plus ext_timeout (strip (symptoms fever)) = Inr (lit ''fever+cough'') \<and>
   client_get ext_timeout (EUROPE_PMC_SEARCH (lit ''fever+cough'') (str_int (top_k fever)))
     = Inl (lit ''timed out'') \<and>
   snd (query_literature ext_timeout init_world fever) =
     Inl (HTTPException 502 (lit ''timed out'')) \<and>
   quote_plus ext_503 (strip (symptoms fever)) = Inr (lit ''fever+cough'') \<and>
   (\<exists>r. client_get ext_503 (EUROPE_PMC_SEARCH (lit ''fever+cough'') (str_int (top_k fever)))
          = Inr r \<and>
        \<not> (200 \<le> status_code r \<and> status_code r < 300) \<and>
        status_error r = lit ''Server error 503'') \<and>
   snd (query_literature ext_503 init_world fever) =
     Inl (HTTPException 502 (lit ''Server error 503''))"
proof -
  have h1: "strip (symptoms fever) \<noteq> []"
    by (simp add: fever_def new_QueryRequest_def strip_def isspace_def lit_def)
  have h2: "quote_plus ext_timeout (strip (symptoms fever)) = Inr (lit ''fever+cough'')"
    by (simp add: fever_def new_QueryRequest_def strip_def isspace_def lit_def ext_timeout_def
        ext_plain_def ascii_quote_plus_def)
  have h3: "client_get ext_timeout (EUROPE_PMC_SEARCH (lit ''fever+cough'') (str_int (top_k fever)))
     = Inl (lit ''timed out'')"
    by (simp add: ext_timeout_def)
  have k2: "quote_plus ext_503 (strip (symptoms fever)) = Inr (lit ''fever+cough'')"
    by (simp add: fever_def new_QueryRequest_def strip_def isspace_def lit_def ext_503_def
        ext_plain_def ascii_quote_plus_def)
  have k3: "\<exists>r. client_get ext_503 (EUROPE_PMC_SEARCH (lit ''fever+cough'') (str_int (top_k fever)))
          = Inr r \<and>
        \<not> (200 \<le> status_code r \<and> status_code r < 300) \<and>
        status_error r = lit ''Server error 503''"
    by (simp add: ext_503_def)
  from search_failure_gives_502 [OF h1 h2 disjI1 [OF h3], of init_world]
    search_failure_gives_502 [OF h1 k2 disjI2 [OF k3], of init_world] h1 h2 h3 k2 k3
  show ?thesis by blast
qed

section \<open>Match records\<close>

text \<open>
  Claim C7. In every match record the loop builds, the abstract is a string and the
  snippet is determined by it: the first 400 characters followed by "..." when the
  abstract is longer than 400 characters, and the abstract itself otherwise.
\<close>

theorem snippet_of_abstract:
  "parse_hit ext hit = Inr (m, a) \<Longrightarrow>
   \<exists>s. abstract m = PStr s \<and>
       snippet m = (if 400 < length s then take 400 s @ lit ''...'' else s)"
  by (drule parse_hit_snippet) (rule make_snippet_Inr)

theorem snippet_of_abstract_witness:
  "parse_hit (ext_plain PNone) hit_long =
     Inr (\<lparr>title = PNone, abstract = PStr (replicate 401 97),
           snippet = replicate 400 97 @ lit ''...'', journal = PStr [], year = PStr [],
           source = lit ''EuropePMC'',
           url = PStr (lit ''https://europepmc.org/article/pmc/None'')\<rparr>,
          PStr (replicate 401 97)) \<and>
   (\<exists>s. PStr (replicate 401 97) = PStr s \<and>
        replicate 400 97 @ lit ''...'' = (if 400 < length s then take 400 s @ lit ''...'' else s))"
proof -
  have h: "parse_hit (ext_plain PNone) hit_long =
     Inr (\<lparr>title = PNone, abstract = PStr (replicate 401 97),
           snippet = replicate 400 97 @ lit ''...'', journal = PStr [], year = PStr [],
           source = lit ''EuropePMC'',
           url = PStr (lit ''https://europepmc.org/article/pmc/None'')\<rparr>,
          PStr (replicate 401 97))"
    by (simp add: parse_hit_def hit_long_def bind_def py_or_def lit_def Let_def)
  from snippet_of_abstract [OF h] h show ?thesis by simp
qed

text \<open>
  Claim C10. A hit without a title field gives a match record whose title is
  \<^verbatim>\<open>None\<close>, and its citation starts with the text "None" where the title belongs.
\<close>

theorem missing_title_renders_None:
  assumes "parse_hit ext (PDict kvs) = Inr (m, a)"
    and "map_of kvs (lit ''title'') = None"
  shows "title m = PNone \<and>
         citation ext m =
           lit ''None'' @ [32, 8212, 32] @ py_str (py_repr ext) (journal m) @ lit '' ('' @
           py_str (py_repr ext) (year m) @ lit '')'' @ [32, 8212, 32] @
           py_str (py_repr ext) (url m)"
  using parse_hit_title [OF assms(1)] assms(2) by (simp add: citation_def)

theorem missing_title_renders_None_witness:
  "parse_hit (ext_plain PNone) hit_b =
     Inr (\<lparr>title = PNone, abstract = PStr (lit ''beta''), snippet = lit ''beta'',
           journal = PStr [], year = PStr [], source = lit ''EuropePMC'',
           url = PStr (lit ''https://europepmc.org/article/pmc/7'')\<rparr>, PStr (lit ''beta'')) \<and>
   citation (ext_plain PNone)
     \<lparr>title = PNone, abstract = PStr (lit ''beta''), snippet = lit ''beta'',
      journal = PStr [], year = PStr [], source = lit ''EuropePMC'',
      url = PStr (lit ''https://europepmc.org/article/pmc/7'')\<rparr> =
     lit ''None'' @ [32, 8212, 32] @ lit '' ()'' @ [32, 8212, 32] @
     lit ''https://europepmc.org/article/pmc/7''"
proof -
  have h: "parse_hit (ext_plain PNone)
             (PDict [(lit ''abstractText'', PStr (lit ''beta'')), (lit ''id'', PInt 7)]) =
     Inr (\<lparr>title = PNone, abstract = PStr (lit ''beta''), snippet = lit ''beta'',
           journal = PStr [], year = PStr [], source = lit ''EuropePMC'',
           url = PStr (lit ''https://europepmc.org/article/pmc/7'')\<rparr>, PStr (lit ''beta''))"
    by (simp add: parse_hit_def bind_def py_or_def lit_def Let_def str_int_def str_nat.simps)
  have t: "map_of [(lit ''abstractText'', PStr (lit ''beta'')), (lit ''id'', PInt 7)]
             (lit ''title'') = None"
    by (simp add: lit_def)
  from missing_title_renders_None [OF h t] h show ?thesis by (simp add: hit_b_def lit_def)
qed

section \<open>The pipeline after the search has answered\<close>

lemma query_ok:
  assumes "strip (symptoms req) \<noteq> []"
    and "fetch_europepmc ext w (strip (symptoms req)) (top_k req) = (w1, Inr data)"
    and "result_hits data = Inr hits"
    and "hits_loop ext hits [] [] = Inr (results, abstracts)"
    and "final = (case rank_results ext (snd (get_embedding_model ext w1))
                         (strip (symptoms req)) results abstracts of
                    Inl e \<Rightarrow> results | Inr ranked \<Rightarrow> ranked)"
  shows "query_literature ext w req =
           (fst (get_embedding_model ext w1),
            Inr \<lparr>summary = summary_placeholder (length final), matches = final,
                 citations = map (citation ext) final\<rparr>)"
  using assms
  by (cases "get_embedding_model ext w1")
     (simp add: query_literature_def bind_def Let_def)

lemma query_unhandled:
  assumes "strip (symptoms req) \<noteq> []"
    and "fetch_europepmc ext w (strip (symptoms req)) (top_k req) = (w1, Inr data)"
    and "bind (result_hits data) (\<lambda>hits. hits_loop ext hits [] []) = Inl e"
  shows "query_literature ext w req = (w1, Inl (Unhandled e))"
  using assms by (simp add: query_literature_def Let_def)

lemma hits_loop_acc:
  "hits_loop ext hits rs as = Inr (results, abstracts) \<Longrightarrow>
   \<exists>rs' as'. results = rs @ rs' \<and> abstracts = as @ as' \<and> length as' = length hits \<and>
     list_all2 (\<lambda>h m. \<exists>a. parse_hit ext h = Inr (m, a)) hits rs'"
proof (induction hits arbitrary: rs as)
  case Nil
  then show ?case by simp
next
  case (Cons hit hits)
  from Cons.prems obtain m a where p: "parse_hit ext hit = Inr (m, a)"
    and l: "hits_loop ext hits (rs @ [m]) (as @ [a]) = Inr (results, abstracts)"
    by (auto simp: bind_def split: sum.splits)
  from Cons.IH [OF l] obtain rs' as' where
    "results = (rs @ [m]) @ rs'" "abstracts = (as @ [a]) @ as'" "length as' = length hits"
    "list_all2 (\<lambda>h m. \<exists>a. parse_hit ext h = Inr (m, a)) hits rs'"
    by blast
  with p show ?case
    by (intro exI [of _ "m # rs'"] exI [of _ "a # as'"]) auto
qed

lemma hits_loop_parsed:
  assumes "hits_loop ext hits [] [] = Inr (results, abstracts)"
  shows "list_all2 (\<lambda>h m. \<exists>a. parse_hit ext h = Inr (m, a)) hits results"
    and "length abstracts = length hits"
  using hits_loop_acc [OF assms] by auto

lemma hits_loop_total:
  "list_all well_formed_hit hits \<Longrightarrow>
   \<exists>results abstracts. hits_loop ext hits rs as = Inr (results, abstracts)"
proof (induction hits arbitrary: rs as)
  case Nil
  then show ?case by simp
next
  case (Cons hit hits)
  then have "well_formed_hit hit" by simp
  then obtain m a where "parse_hit ext hit = Inr (m, a)"
    using parse_hit_ok_iff by blast
  moreover from Cons have "\<exists>results abstracts.
      hits_loop ext hits (rs @ [m]) (as @ [a]) = Inr (results, abstracts)"
    by simp
  ultimately show ?case by (simp add: bind_def)
qed

lemma rank_results_None [simp]: "rank_results ext None q results abstracts = Inr results"
  by (simp add: rank_results_def)

lemma rank_results_no_abstracts [simp]: "rank_results ext model q results [] = Inr results"
  by (simp add: rank_results_def split: option.splits)

lemma sorter_length: "length (Rep_sorter f xs ks) = length xs"
proof -
  have "mset (Rep_sorter f xs ks) = mset xs" using Rep_sorter [of f] by simp
  then show ?thesis by (rule mset_eq_length)
qed

lemma rank_results_length:
  "rank_results ext model q results abstracts = Inr ranked \<Longrightarrow> length ranked = length results"
  by (auto simp: rank_results_def bind_def sorted_reverse_def sorter_length
      split: option.splits if_splits sum.splits)

section \<open>The example worlds, evaluated\<close>

lemma fever_stripped: "strip (symptoms fever) = lit ''fever cough''" "top_k fever = 3"
  by (simp_all add: fever_def new_QueryRequest_def strip_def isspace_def lit_def)

lemma fever_not_blank: "strip (symptoms fever) \<noteq> []"
  by (simp add: fever_stripped) (simp add: lit_def)

lemma fetch_fever:
  assumes "quote_plus ext = ascii_quote_plus"
    and "client_get ext = (\<lambda>url. Inr (ok_response body))"
  shows "fetch_europepmc ext w (strip (symptoms fever)) (top_k fever) =
           (w\<lparr>requests_sent := requests_sent w @ [fever_url]\<rparr>, Inr body)"
  unfolding fever_stripped
  by (simp add: fetch_europepmc_def assms ascii_quote_plus_def raise_for_status_def ok_response_def
      EUROPE_PMC_SEARCH_def fever_url_def str_int_def str_nat.simps Let_def lit_def)

lemma search_body_hits: "result_hits (search_body hits) = Inr hits"
  by (simp add: result_hits_def search_body_def bind_def lit_def)

lemma parse_hit_a: "parse_hit ext hit_a = Inr (match_a, PStr (lit ''alpha''))"
  by (simp add: parse_hit_def hit_a_def match_a_def bind_def py_or_def Let_def lit_def)

lemma parse_hit_b: "parse_hit ext hit_b = Inr (match_b, PStr (lit ''beta''))"
  by (simp add: parse_hit_def hit_b_def match_b_def bind_def py_or_def Let_def lit_def
      str_int_def str_nat.simps)

lemma parse_hit_c: "parse_hit ext hit_c = Inr (match_c, PStr (lit ''Cough''))"
  by (simp add: parse_hit_def hit_c_def match_c_def bind_def py_or_def Let_def lit_def)

lemma hits_loop_abc:
  "hits_loop ext [hit_a, hit_b, hit_c] [] [] =
     Inr ([match_a, match_b, match_c], [PStr (lit ''alpha''), PStr (lit ''beta''), PStr (lit ''Cough'')])"
  by (simp add: parse_hit_a parse_hit_b parse_hit_c bind_def)

lemma ext_embed_fields:
  "quote_plus (ext_embed load body) = ascii_quote_plus"
  "client_get (ext_embed load body) = (\<lambda>url. Inr (ok_response body))"
  "SentenceTransformer (ext_embed load body) = load"
  "np_dot (ext_embed load body) = demo_dot"
  "linalg_norm (ext_embed load body) = demo_norm"
  "np_mul (ext_embed load body) = demo_mul"
  "np_add (ext_embed load body) = demo_add"
  "np_div (ext_embed load body) = demo_div"
  "sorted_unordered (ext_embed load body) = keep_order"
  "embeddings_enabled (ext_embed load body)"
  by (simp_all add: ext_embed_def ext_plain_def embeddings_enabled_def)

lemma ext_plain_fields:
  "quote_plus (ext_plain body) = ascii_quote_plus"
  "client_get (ext_plain body) = (\<lambda>url. Inr (ok_response body))"
  "\<not> embeddings_enabled (ext_plain body)"
  by (simp_all add: ext_plain_def embeddings_enabled_def lit_def)

lemma get_model_fresh:
  assumes "embeddings_enabled ext" "EMB_MODEL w = None" "\<not> EMB_LOADING w"
  shows "get_embedding_model ext w =
           (case SentenceTransformer ext of
              Inr m \<Rightarrow> (w\<lparr>EMB_MODEL := Some m, load_attempts := Suc (load_attempts w)\<rparr>, Some m)
            | Inl e \<Rightarrow> (w\<lparr>load_attempts := Suc (load_attempts w)\<rparr>, None))"
  using assms by (cases w) (simp add: get_embedding_model_def Let_def split: sum.splits)

lemma demo_dot_single: "demo_dot [x] [y] = Inr (demo_mul x y)"
  by (simp add: demo_dot_def)

lemma demo_norm_values:
  "demo_norm [f_big] = f_big" "demo_norm [0] = 0" "demo_norm [f_nan] = f_nan"
  by code_simp+

lemma demo_mul_values:
  "demo_mul f_big f_big = f_big2" "demo_mul f_big 0 = 0" "demo_mul f_big f_nan = f_nan"
  by code_simp+

lemma demo_add_values:
  "demo_add f_big2 epsilon = f_big2" "demo_add 0 epsilon = epsilon"
  "demo_add f_nan epsilon = f_nan"
  by code_simp+

lemma demo_div_values:
  "demo_div f_big2 f_big2 = f_one" "demo_div 0 epsilon = 0" "demo_div f_nan f_nan = f_nan"
  by code_simp+

lemmas demo_arith =
  demo_dot_single demo_norm_values demo_mul_values demo_add_values demo_div_values

lemma parity_scores:
  "rank_scores (ext_embed load body) parity_model (lit ''fever cough'')
     [PStr (lit ''alpha''), PStr (lit ''beta''), PStr (lit ''Cough'')] =
   Inr [f_one, 0, f_one]"
  by (simp add: rank_scores_def parity_model_def bind_def raised_def ext_embed_fields demo_arith
      lit_def)

lemma is_nan_examples: "\<not> is_nan f_one" "\<not> is_nan 0" "is_nan f_nan"
  by code_simp+

lemma float_key_examples: "float_key f_one = 4607182418800017408" "float_key 0 = 0"
  by code_simp+

lemma parity_ranked:
  "rank_results (ext_embed load body) (Some parity_model) (lit ''fever cough'')
     [match_a, match_b, match_c]
     [PStr (lit ''alpha''), PStr (lit ''beta''), PStr (lit ''Cough'')] =
   Inr [match_a, match_c, match_b]"
  by (simp add: rank_results_def parity_scores bind_def sorted_reverse_def upt_rec
      is_nan_examples float_key_examples)

lemma nan_scores:
  "rank_scores (ext_embed load body) nan_model (lit ''fever cough'')
     [PStr (lit ''alpha''), PStr (lit ''beta'')] =
   Inr [f_one, f_nan]"
  by (simp add: rank_scores_def nan_model_def bind_def raised_def ext_embed_fields demo_arith
      lit_def)

lemma nan_ranked:
  "rank_results (ext_embed load body) (Some nan_model) (lit ''fever cough'')
     [match_a, match_b] [PStr (lit ''alpha''), PStr (lit ''beta'')] =
   Inr [match_a, match_b]"
  by (simp add: rank_results_def nan_scores bind_def sorted_reverse_def upt_rec
      is_nan_examples ext_embed_fields keep_order.rep_eq)

lemma hits_loop_ab:
  "hits_loop ext [hit_a, hit_b] [] [] =
     Inr ([match_a, match_b], [PStr (lit ''alpha''), PStr (lit ''beta'')])"
  by (simp add: parse_hit_a parse_hit_b bind_def)

section \<open>Ranking\<close>

text \<open>
  Claim C1. When the symptoms are not blank, the search has answered and the loop has
  built the match records, and the ranking step is unavailable (\<open>get_embedding_model\<close>
  gives \<^verbatim>\<open>None\<close>, because embeddings are disabled or the model did not load) or
  raises, the endpoint still returns a payload, and its matches are the records in the
  order of the hits: the i-th match is the record built from the i-th hit.
\<close>

theorem ranking_fallback_keeps_order:
  assumes "strip (symptoms req) \<noteq> []"
    and "fetch_europepmc ext w (strip (symptoms req)) (top_k req) = (w1, Inr data)"
    and "result_hits data = Inr hits"
    and "hits_loop ext hits [] [] = Inr (results, abstracts)"
    and "snd (get_embedding_model ext w1) = None \<or>
         (\<exists>e. rank_results ext (snd (get_embedding_model ext w1))
                 (strip (symptoms req)) results abstracts = Inl e)"
  shows "\<exists>w2 p. query_literature ext w req = (w2, Inr p) \<and> matches p = results \<and>
           list_all2 (\<lambda>h m. \<exists>a. parse_hit ext h = Inr (m, a)) hits (matches p)"
proof -
  have "(case rank_results ext (snd (get_embedding_model ext w1))
                (strip (symptoms req)) results abstracts of
           Inl e \<Rightarrow> results | Inr ranked \<Rightarrow> ranked) = results"
    using assms(5) by auto
  from query_ok [OF assms(1-4) this [symmetric]] hits_loop_parsed(1) [OF assms(4)]
  show ?thesis by simp
qed

theorem ranking_fallback_keeps_order_witness:
  "strip (symptoms fever) \<noteq> [] \<and>
   fetch_europepmc (ext_embed (Inr broken_model) (search_body [hit_a, hit_b, hit_c])) init_world
       (strip (symptoms fever)) (top_k fever) =
     (init_world\<lparr>requests_sent := [fever_url]\<rparr>, Inr (search_body [hit_a, hit_b, hit_c])) \<and>
   rank_results (ext_embed (Inr broken_model) (search_body [hit_a, hit_b, hit_c]))
       (snd (get_embedding_model (ext_embed (Inr broken_model) (search_body [hit_a, hit_b, hit_c]))
              (init_world\<lparr>requests_sent := [fever_url]\<rparr>)))
       (strip (symptoms fever)) [match_a, match_b, match_c]
       [PStr (lit ''alpha''), PStr (lit ''beta''), PStr (lit ''Cough'')] =
     Inl (Raised (lit ''out of memory'')) \<and>
   (\<exists>w2 p. query_literature (ext_embed (Inr broken_model) (search_body [hit_a, hit_b, hit_c]))
              init_world fever = (w2, Inr p) \<and>
           matches p = [match_a, match_b, match_c])"
proof -
  let ?ext = "ext_embed (Inr broken_model) (search_body [hit_a, hit_b, hit_c])"
  let ?w1 = "init_world\<lparr>requests_sent := [fever_url]\<rparr>"
  have h2: "fetch_europepmc ?ext init_world (strip (symptoms fever)) (top_k fever) =
     (?w1, Inr (search_body [hit_a, hit_b, hit_c]))"
    using fetch_fever [of ?ext "search_body [hit_a, hit_b, hit_c]" init_world]
    by (simp add: ext_embed_fields init_world_def)
  have g: "snd (get_embedding_model ?ext ?w1) = Some broken_model"
    by (simp add: get_model_fresh ext_embed_fields init_world_def)
  have h5: "rank_results ?ext (snd (get_embedding_model ?ext ?w1)) (strip (symptoms fever))
       [match_a, match_b, match_c] [PStr (lit ''alpha''), PStr (lit ''beta''), PStr (lit ''Cough'')] =
     Inl (Raised (lit ''out of memory''))"
    unfolding g
    by (simp add: rank_results_def rank_scores_def bind_def raised_def broken_model_def)
  have h5': "snd (get_embedding_model ?ext ?w1) = None \<or>
      (\<exists>e. rank_results ?ext (snd (get_embedding_model ?ext ?w1)) (strip (symptoms fever))
         [match_a, match_b, match_c]
         [PStr (lit ''alpha''), PStr (lit ''beta''), PStr (lit ''Cough'')] = Inl e)"
    using h5 by blast
  from ranking_fallback_keeps_order [OF fever_not_blank h2 search_body_hits hits_loop_abc h5'] fever_not_blank h2 h5
  show ?thesis by blast
qed

text \<open>
  The order that \<open>sorted_reverse\<close> gives to the indices \<open>0, \<dots>, n - 1\<close> when no key
  is a NaN: a later position never has a higher key, and among equal keys the smaller
  index comes first.
\<close>

lemma insort_key_wrt:
  fixes f :: "nat \<Rightarrow> int"
  assumes "sorted_wrt (\<lambda>a b. f a < f b \<or> (f a = f b \<and> b < a)) ys"
    and "\<forall>y\<in>set ys. y < x"
  shows "sorted_wrt (\<lambda>a b. f a < f b \<or> (f a = f b \<and> b < a)) (insort_key f x ys)"
  using assms by (induction ys) (auto simp: set_insort_key)

lemma sort_key_wrt:
  fixes f :: "nat \<Rightarrow> int"
  assumes "sorted_wrt (\<lambda>a b. b < a) xs"
  shows "sorted_wrt (\<lambda>a b. f a < f b \<or> (f a = f b \<and> b < a)) (sort_key f xs)"
  using assms
proof (induction xs)
  case Nil
  then show ?case by simp
next
  case (Cons x xs)
  then have "sorted_wrt (\<lambda>a b. f a < f b \<or> (f a = f b \<and> b < a)) (sort_key f xs)"
    and "\<forall>y\<in>set (sort_key f xs). y < x"
    by auto
  then show ?case by (simp add: insort_key_wrt)
qed

lemma sorted_reverse_wrt:
  fixes f :: "nat \<Rightarrow> int"
  shows "sorted_wrt (\<lambda>a b. f b < f a \<or> (f b = f a \<and> a < b))
           (rev (sort_key f (rev [0..<n])))"
proof -
  have "sorted_wrt (\<lambda>a b. b < a) (rev [0..<n])"
    by (simp add: sorted_wrt_rev)
  from sort_key_wrt [OF this, of f] show ?thesis
    by (simp add: sorted_wrt_rev)
qed

lemma sorted_reverse_order:
  fixes scores :: "pyfloat list"
  assumes "order = rev (sort_key (\<lambda>i. float_key (scores ! i)) (rev [0..<n]))"
    and "n \<le> length scores"
    and "list_all (\<lambda>x. \<not> is_nan x) scores"
  shows "mset order = mset [0..<n]"
    and "\<forall>i j. i < j \<and> j < length order \<longrightarrow> float_ge (scores ! (order ! i)) (scores ! (order ! j))"
    and "\<forall>i j. i < j \<and> j < length order \<and> float_eq (scores ! (order ! i)) (scores ! (order ! j))
           \<longrightarrow> order ! i < order ! j"
proof -
  show perm: "mset order = mset [0..<n]" using assms(1) by simp
  have no_nan: "\<not> is_nan (scores ! (order ! i))" if "i < length order" for i
  proof -
    from that have "order ! i \<in> set order" by simp
    also have "set order = set [0..<n]" using perm by (rule mset_eq_setD)
    finally have "order ! i < length scores" using assms(2) by simp
    with assms(3) show ?thesis by (simp add: list_all_length)
  qed
  have w: "float_key (scores ! (order ! j)) < float_key (scores ! (order ! i)) \<or>
      (float_key (scores ! (order ! j)) = float_key (scores ! (order ! i)) \<and> order ! i < order ! j)"
    if "i < j" "j < length order" for i j
    using sorted_reverse_wrt [of "\<lambda>i. float_key (scores ! i)" n] that
    unfolding assms(1) sorted_wrt_iff_nth_less by blast
  show "\<forall>i j. i < j \<and> j < length order \<longrightarrow> float_ge (scores ! (order ! i)) (scores ! (order ! j))"
  proof (intro allI impI)
    fix i j assume a: "i < j \<and> j < length order"
    then have "float_key (scores ! (order ! j)) < float_key (scores ! (order ! i)) \<or>
      (float_key (scores ! (order ! j)) = float_key (scores ! (order ! i)) \<and> order ! i < order ! j)"
      using w by blast
    then have "float_key (scores ! (order ! j)) \<le> float_key (scores ! (order ! i))" by linarith
    moreover from a have "\<not> is_nan (scores ! (order ! i))" "\<not> is_nan (scores ! (order ! j))"
      by (simp_all add: no_nan)
    ultimately show "float_ge (scores ! (order ! i)) (scores ! (order ! j))"
      by (simp add: float_ge_def)
  qed
  show "\<forall>i j. i < j \<and> j < length order \<and> float_eq (scores ! (order ! i)) (scores ! (order ! j))
           \<longrightarrow> order ! i < order ! j"
  proof (intro allI impI)
    fix i j
    assume a: "i < j \<and> j < length order \<and> float_eq (scores ! (order ! i)) (scores ! (order ! j))"
    then have "float_key (scores ! (order ! j)) < float_key (scores ! (order ! i)) \<or>
      (float_key (scores ! (order ! j)) = float_key (scores ! (order ! i)) \<and> order ! i < order ! j)"
      using w by blast
    moreover from a have "float_key (scores ! (order ! i)) = float_key (scores ! (order ! j))"
      by (simp add: float_eq_def)
    ultimately show "order ! i < order ! j" by linarith
  qed
qed

lemma rank_results_ranked:
  assumes "rank_results ext (Some m) q results abstracts = Inr ranked"
    and "rank_scores ext m q abstracts = Inr scores"
    and "abstracts \<noteq> []"
    and "list_all (\<lambda>x. \<not> is_nan x) scores"
  shows "ranked = map (\<lambda>i. results ! i)
                    (rev (sort_key (\<lambda>i. float_key (scores ! i)) (rev [0..<length results])))"
    and "length results \<le> length scores"
proof -
  from assms(1-3) have in_range: "list_all (\<lambda>i. i < length scores) [0..<length results]"
    by (auto simp: rank_results_def bind_def sorted_reverse_def split: if_splits)
  then show len: "length results \<le> length scores"
    by (cases "length results") (auto simp: list_all_iff)
  have "\<not> list_ex (\<lambda>i. is_nan (scores ! i)) [0..<length results]"
    using assms(4) len by (auto simp: list_ex_iff list_all_length)
  with assms(1-3) in_range
  show "ranked = map (\<lambda>i. results ! i)
                    (rev (sort_key (\<lambda>i. float_key (scores ! i)) (rev [0..<length results])))"
    by (auto simp: rank_results_def bind_def sorted_reverse_def)
qed

text \<open>
  Two hits, a model that is loaded and returns its embeddings, and arithmetic that goes
  through: ranking is enabled and succeeds. The second score is a NaN, the sort leaves
  the two records where they were, and the score of the first output position is not
  greater than or equal to the score of the second, against claim C4.
\<close>

theorem nan_score_breaks_descending_order:
  "snd (get_embedding_model (ext_embed (Inr nan_model) (search_body [hit_a, hit_b]))
          (init_world\<lparr>requests_sent := [fever_url]\<rparr>)) = Some nan_model \<and>
   rank_scores (ext_embed (Inr nan_model) (search_body [hit_a, hit_b])) nan_model
       (strip (symptoms fever)) [PStr (lit ''alpha''), PStr (lit ''beta'')] = Inr [f_one, f_nan] \<and>
   rank_results (ext_embed (Inr nan_model) (search_body [hit_a, hit_b])) (Some nan_model)
       (strip (symptoms fever)) [match_a, match_b] [PStr (lit ''alpha''), PStr (lit ''beta'')] =
     Inr [match_a, match_b] \<and>
   map_sum id matches
     (snd (query_literature (ext_embed (Inr nan_model) (search_body [hit_a, hit_b]))
             init_world fever)) = Inr [match_a, match_b] \<and>
   \<not> float_ge f_one f_nan"
proof -
  let ?ext = "ext_embed (Inr nan_model) (search_body [hit_a, hit_b])"
  let ?w1 = "init_world\<lparr>requests_sent := [fever_url]\<rparr>"
  have h2: "fetch_europepmc ?ext init_world (strip (symptoms fever)) (top_k fever) =
     (?w1, Inr (search_body [hit_a, hit_b]))"
    using fetch_fever [of ?ext "search_body [hit_a, hit_b]" init_world]
    by (simp add: ext_embed_fields init_world_def)
  have g: "snd (get_embedding_model ?ext ?w1) = Some nan_model"
    by (simp add: get_model_fresh ext_embed_fields init_world_def)
  have s: "rank_scores ?ext nan_model (strip (symptoms fever))
       [PStr (lit ''alpha''), PStr (lit ''beta'')] = Inr [f_one, f_nan]"
    by (simp only: fever_stripped nan_scores)
  have r: "rank_results ?ext (Some nan_model) (strip (symptoms fever)) [match_a, match_b]
       [PStr (lit ''alpha''), PStr (lit ''beta'')] = Inr [match_a, match_b]"
    by (simp only: fever_stripped nan_ranked)
  have "[match_a, match_b] = (case rank_results ?ext (snd (get_embedding_model ?ext ?w1))
            (strip (symptoms fever)) [match_a, match_b] [PStr (lit ''alpha''), PStr (lit ''beta'')] of
          Inl e \<Rightarrow> [match_a, match_b] | Inr ranked \<Rightarrow> ranked)"
    by (simp add: g r)
  from query_ok [OF fever_not_blank h2 search_body_hits hits_loop_ab this]
  have q: "map_sum id matches (snd (query_literature ?ext init_world fever)) = Inr [match_a, match_b]"
    by simp
  have "\<not> float_ge f_one f_nan" by (simp add: float_ge_def is_nan_examples)
  with g s r q show ?thesis by blast
qed

text \<open>
  Claim C4, amended. When the ranking step runs to its end (the model is there, the
  scores are computed, and the sort does not raise) and no score is a NaN, the matches of
  the payload are the records rearranged by a permutation \<open>order\<close> of their positions
  such that the score of an earlier output position is greater than or equal to the score
  of a later one, and two positions of equal score keep the order they had before.
\<close>

theorem ranking_orders_by_score:
  assumes "strip (symptoms req) \<noteq> []"
    and "fetch_europepmc ext w (strip (symptoms req)) (top_k req) = (w1, Inr data)"
    and "result_hits data = Inr hits"
    and "hits_loop ext hits [] [] = Inr (results, abstracts)"
    and "get_embedding_model ext w1 = (w2, Some m)"
    and "rank_scores ext m (strip (symptoms req)) abstracts = Inr scores"
    and "rank_results ext (Some m) (strip (symptoms req)) results abstracts = Inr ranked"
    and "list_all (\<lambda>x. \<not> is_nan x) scores"
  shows "\<exists>order p. query_literature ext w req = (w2, Inr p) \<and>
           matches p = map (\<lambda>i. results ! i) order \<and>
           mset order = mset [0..<length results] \<and>
           (\<forall>i j. i < j \<and> j < length order \<longrightarrow>
              float_ge (scores ! (order ! i)) (scores ! (order ! j))) \<and>
           (\<forall>i j. i < j \<and> j < length order \<and>
              float_eq (scores ! (order ! i)) (scores ! (order ! j))
              \<longrightarrow> order ! i < order ! j)"
proof (cases "abstracts = []")
  case True
  have "length results = length hits" "length abstracts = length hits"
    using hits_loop_parsed [OF assms(4)] by (auto dest: list_all2_lengthD)
  with True have empty: "results = []" by simp
  with assms(7) True have "ranked = []" by simp
  then have "ranked = (case rank_results ext (snd (get_embedding_model ext w1))
                         (strip (symptoms req)) results abstracts of
                    Inl e \<Rightarrow> results | Inr ranked \<Rightarrow> ranked)"
    using assms(5,7) by simp
  from query_ok [OF assms(1-4) this] assms(5) \<open>ranked = []\<close>
  have "query_literature ext w req =
          (w2, Inr \<lparr>summary = summary_placeholder 0, matches = [], citations = []\<rparr>)"
    by simp
  with empty show ?thesis
    by (intro exI [of _ "[]"] exI [of _ "\<lparr>summary = summary_placeholder 0, matches = [],
          citations = []\<rparr>"]) simp
next
  case False
  define order where
    "order = rev (sort_key (\<lambda>i. float_key (scores ! i)) (rev [0..<length results]))"
  from rank_results_ranked [OF assms(7) assms(6) False assms(8)]
  have ranked: "ranked = map (\<lambda>i. results ! i) order" and len: "length results \<le> length scores"
    by (simp_all add: order_def)
  have "ranked = (case rank_results ext (snd (get_embedding_model ext w1))
                         (strip (symptoms req)) results abstracts of
                    Inl e \<Rightarrow> results | Inr ranked \<Rightarrow> ranked)"
    using assms(5,7) by simp
  from query_ok [OF assms(1-4) this] assms(5)
  have q: "query_literature ext w req =
          (w2, Inr \<lparr>summary = summary_placeholder (length ranked), matches = ranked,
                    citations = map (citation ext) ranked\<rparr>)"
    by simp
  have m: "matches \<lparr>summary = summary_placeholder (length ranked), matches = ranked,
                    citations = map (citation ext) ranked\<rparr> = map (\<lambda>i. results ! i) order"
    using ranked by simp
  from q m sorted_reverse_order [OF order_def len assms(8)] show ?thesis by blast
qed

theorem ranking_orders_by_score_witness:
  "strip (symptoms fever) \<noteq> [] \<and>
   get_embedding_model (ext_embed (Inr parity_model) (search_body [hit_a, hit_b, hit_c]))
       (init_world\<lparr>requests_sent := [fever_url]\<rparr>) =
     (init_world\<lparr>requests_sent := [fever_url], EMB_MODEL := Some parity_model, load_attempts := 1\<rparr>,
      Some parity_model) \<and>
   rank_scores (ext_embed (Inr parity_model) (search_body [hit_a, hit_b, hit_c])) parity_model
       (strip (symptoms fever)) [PStr (lit ''alpha''), PStr (lit ''beta''), PStr (lit ''Cough'')] =
     Inr [f_one, 0, f_one] \<and>
   list_all (\<lambda>x. \<not> is_nan x) [f_one, 0, f_one] \<and>
   rank_results (ext_embed (Inr parity_model) (search_body [hit_a, hit_b, hit_c]))
       (Some parity_model) (strip (symptoms fever)) [match_a, match_b, match_c]
       [PStr (lit ''alpha''), PStr (lit ''beta''), PStr (lit ''Cough'')] =
     Inr [match_a, match_c, match_b] \<and>
   (\<exists>order p.
      query_literature (ext_embed (Inr parity_model) (search_body [hit_a, hit_b, hit_c]))
        init_world fever =
        (init_world\<lparr>requests_sent := [fever_url], EMB_MODEL := Some parity_model,
                     load_attempts := 1\<rparr>, Inr p) \<and>
      matches p = map (\<lambda>i. [match_a, match_b, match_c] ! i) order \<and>
      mset order = mset [0..<length [match_a, match_b, match_c]] \<and>
      (\<forall>i j. i < j \<and> j < length order \<longrightarrow>
         float_ge ([f_one, 0, f_one] ! (order ! i)) ([f_one, 0, f_one] ! (order ! j))) \<and>
      (\<forall>i j. i < j \<and> j < length order \<and>
         float_eq ([f_one, 0, f_one] ! (order ! i)) ([f_one, 0, f_one] ! (order ! j))
         \<longrightarrow> order ! i < order ! j))"
proof -
  let ?ext = "ext_embed (Inr parity_model) (search_body [hit_a, hit_b, hit_c])"
  let ?w1 = "init_world\<lparr>requests_sent := [fever_url]\<rparr>"
  have h2: "fetch_europepmc ?ext init_world (strip (symptoms fever)) (top_k fever) =
     (?w1, Inr (search_body [hit_a, hit_b, hit_c]))"
    using fetch_fever [of ?ext "search_body [hit_a, hit_b, hit_c]" init_world]
    by (simp add: ext_embed_fields init_world_def)
  have h5: "get_embedding_model ?ext ?w1 =
     (init_world\<lparr>requests_sent := [fever_url], EMB_MODEL := Some parity_model, load_attempts := 1\<rparr>,
      Some parity_model)"
    by (simp add: get_model_fresh ext_embed_fields init_world_def)
  have h6: "rank_scores ?ext parity_model (strip (symptoms fever))
       [PStr (lit ''alpha''), PStr (lit ''beta''), PStr (lit ''Cough'')] =
     Inr [f_one, 0, f_one]"
    by (simp only: fever_stripped parity_scores)
  have h7: "rank_results ?ext (Some parity_model) (strip (symptoms fever)) [match_a, match_b, match_c]
       [PStr (lit ''alpha''), PStr (lit ''beta''), PStr (lit ''Cough'')] =
     Inr [match_a, match_c, match_b]"
    by (simp only: fever_stripped parity_ranked)
  have h8: "list_all (\<lambda>x. \<not> is_nan x) [f_one, 0, f_one]"
    by (simp add: is_nan_examples)
  from ranking_orders_by_score [OF fever_not_blank h2 search_body_hits hits_loop_abc h5 h6 h7 h8]
    fever_not_blank h5 h6 h7 h8
  show ?thesis by blast
qed

section \<open>Parsing the search response\<close>

text \<open>
  A body whose \<^verbatim>\<open>resultList\<close> is a list instead of an object: the key is there, so
  the default of the first \<^verbatim>\<open>get\<close> is not used, and the second \<^verbatim>\<open>get\<close> is called
  on a list, which has no such method. The request ends in an unhandled
  \<^verbatim>\<open>AttributeError\<close>, against claim C5 as it is stated for malformed structures.
\<close>

theorem malformed_result_list_unhandled:
  "snd (query_literature (ext_plain (PDict [(lit ''resultList'', PList [])])) init_world fever) =
     Inl (Unhandled AttributeError)"
proof -
  let ?body = "PDict [(lit ''resultList'', PList [])]"
  have h2: "fetch_europepmc (ext_plain ?body) init_world (strip (symptoms fever)) (top_k fever) =
     (init_world\<lparr>requests_sent := [fever_url]\<rparr>, Inr ?body)"
    using fetch_fever [of "ext_plain ?body" ?body init_world]
    by (simp add: ext_plain_fields init_world_def)
  have "bind (result_hits ?body) (\<lambda>hits. hits_loop (ext_plain ?body) hits [] []) = Inl AttributeError"
    by (simp add: result_hits_def bind_def)
  from query_unhandled [OF fever_not_blank h2 this] show ?thesis by simp
qed

lemma result_hits_absent:
  assumes "map_of kvs (lit ''resultList'') = None \<or>
           (\<exists>kvs'. map_of kvs (lit ''resultList'') = Some (PDict kvs') \<and>
                   map_of kvs' (lit ''result'') = None)"
  shows "result_hits (PDict kvs) = Inr []"
  using assms by (auto simp: result_hits_def bind_def)



text \<open>
  Claim C5, amended. When the body is a JSON object without the key
  \<^verbatim>\<open>resultList\<close>, or one whose \<^verbatim>\<open>resultList\<close> is an object without the key
  \<^verbatim>\<open>result\<close>, the endpoint returns a payload with no matches and no citations.
\<close>

theorem absent_result_list_gives_no_matches:
  assumes "strip (symptoms req) \<noteq> []"
    and "fetch_europepmc ext w (strip (symptoms req)) (top_k req) = (w1, Inr (PDict kvs))"
    and "map_of kvs (lit ''resultList'') = None \<or>
         (\<exists>kvs'. map_of kvs (lit ''resultList'') = Some (PDict kvs') \<and>
                 map_of kvs' (lit ''result'') = None)"
  shows "snd (query_literature ext w req) =
           Inr \<lparr>summary = summary_placeholder 0, matches = [], citations = []\<rparr>"
proof -
  have "hits_loop ext [] [] [] = Inr ([], [])" by simp
  from query_ok [OF assms(1,2) result_hits_absent [OF assms(3)] this, of "[]"]
  show ?thesis by simp
qed

theorem absent_result_list_gives_no_matches_witness:
  "strip (symptoms fever) \<noteq> [] \<and>
   fetch_europepmc (ext_plain (PDict [])) init_world (strip (symptoms fever)) (top_k fever) =
     (init_world\<lparr>requests_sent := [fever_url]\<rparr>, Inr (PDict [])) \<and>
   map_of ([] :: (pystr \<times> pyval) list) (lit ''resultList'') = None \<and>
   snd (query_literature (ext_plain (PDict [])) init_world fever) =
     Inr \<lparr>summary = summary_placeholder 0, matches = [], citations = []\<rparr>"
proof -
  have h2: "fetch_europepmc (ext_plain (PDict [])) init_world (strip (symptoms fever)) (top_k fever) =
     (init_world\<lparr>requests_sent := [fever_url]\<rparr>, Inr (PDict []))"
    using fetch_fever [of "ext_plain (PDict [])" "PDict []" init_world]
    by (simp add: ext_plain_fields init_world_def)
  have h3: "map_of ([] :: (pystr \<times> pyval) list) (lit ''resultList'') = None" by simp
  from absent_result_list_gives_no_matches [OF fever_not_blank h2 disjI1 [OF h3]] fever_not_blank h2 h3
  show ?thesis by blast
qed

section \<open>The response\<close>

text \<open>
  One hit whose abstract is the number 5: the search has answered with success, and the
  slice of line 71 raises a \<^verbatim>\<open>TypeError\<close> that nothing handles, so there is no
  response with one match, against claim C8.
\<close>

theorem non_string_abstract_unhandled:
  "snd (query_literature (ext_plain (search_body [hit_bad])) init_world fever) =
     Inl (Unhandled TypeError)"
proof -
  let ?body = "search_body [hit_bad]"
  have h2: "fetch_europepmc (ext_plain ?body) init_world (strip (symptoms fever)) (top_k fever) =
     (init_world\<lparr>requests_sent := [fever_url]\<rparr>, Inr ?body)"
    using fetch_fever [of "ext_plain ?body" ?body init_world]
    by (simp add: ext_plain_fields init_world_def)
  have "parse_hit (ext_plain ?body) hit_bad = Inl TypeError"
    by (simp add: parse_hit_def hit_bad_def bind_def py_or_def Let_def lit_def)
  then have "bind (result_hits ?body) (\<lambda>hits. hits_loop (ext_plain ?body) hits [] []) =
      Inl TypeError"
    by (simp add: search_body_hits bind_def)
  from query_unhandled [OF fever_not_blank h2 this] show ?thesis by simp
qed

text \<open>
  Claim C8, amended. When the symptoms are not blank, the search has answered with a body
  that holds a result list, and the hits are well formed (by \<open>parse_hit_ok_iff\<close> these
  are exactly the hits the loop can turn into records), the endpoint returns a payload
  with as many matches as there were hits, with one citation per match, in the order of
  the matches and in the format title, em dash, journal, year in parentheses, em dash,
  URL, and with a summary that contains the number of matches.
\<close>

theorem response_shape:
  assumes "strip (symptoms req) \<noteq> []"
    and "fetch_europepmc ext w (strip (symptoms req)) (top_k req) = (w1, Inr data)"
    and "result_hits data = Inr hits"
    and "list_all well_formed_hit hits"
  shows "\<exists>w2 p. query_literature ext w req = (w2, Inr p) \<and>
           length (matches p) = length hits \<and>
           citations p =
             map (\<lambda>r. py_str (py_repr ext) (title r) @ [32, 8212, 32] @
                      py_str (py_repr ext) (journal r) @ lit '' ('' @
                      py_str (py_repr ext) (year r) @ lit '')'' @ [32, 8212, 32] @
                      py_str (py_repr ext) (url r)) (matches p) \<and>
           summary p =
             lit ''SUMMARY (placeholder): Found '' @ str_nat (length (matches p)) @
             lit '' articles. Replace this with LLM-generated educational summary that cites sources.''"
proof -
  from hits_loop_total [OF assms(4)] obtain results abstracts
    where l: "hits_loop ext hits [] [] = Inr (results, abstracts)" by blast
  define final where "final = (case rank_results ext (snd (get_embedding_model ext w1))
                         (strip (symptoms req)) results abstracts of
                    Inl e \<Rightarrow> results | Inr ranked \<Rightarrow> ranked)"
  have "length final = length results"
    by (auto simp: final_def dest: rank_results_length split: sum.splits)
  moreover have "length results = length hits"
    using hits_loop_parsed(1) [OF l] by (auto dest: list_all2_lengthD)
  ultimately have len: "length final = length hits" by simp
  have c: "citation ext = (\<lambda>r. py_str (py_repr ext) (title r) @ [32, 8212, 32] @
                      py_str (py_repr ext) (journal r) @ lit '' ('' @
                      py_str (py_repr ext) (year r) @ lit '')'' @ [32, 8212, 32] @
                      py_str (py_repr ext) (url r))"
    by (rule ext) (simp add: citation_def)
  from query_ok [OF assms(1-3) l final_def] len show ?thesis
    by (simp add: c summary_placeholder_def)
qed

theorem response_shape_witness:
  "strip (symptoms fever) \<noteq> [] \<and> list_all well_formed_hit [hit_a, hit_b, hit_c] \<and>
   (\<exists>w2 p. query_literature (ext_plain (search_body [hit_a, hit_b, hit_c])) init_world fever =
              (w2, Inr p) \<and>
           length (matches p) = 3 \<and> length (citations p) = 3 \<and>
           summary p =
             lit ''SUMMARY (placeholder): Found '' @ str_nat 3 @
             lit '' articles. Replace this with LLM-generated educational summary that cites sources.'')"
proof -
  let ?body = "search_body [hit_a, hit_b, hit_c]"
  have h2: "fetch_europepmc (ext_plain ?body) init_world (strip (symptoms fever)) (top_k fever) =
     (init_world\<lparr>requests_sent := [fever_url]\<rparr>, Inr ?body)"
    using fetch_fever [of "ext_plain ?body" ?body init_world]
    by (simp add: ext_plain_fields init_world_def)
  have h4: "list_all well_formed_hit [hit_a, hit_b, hit_c]"
    by (simp add: hit_a_def hit_b_def hit_c_def py_or_def lit_def)
  from response_shape [OF fever_not_blank h2 search_body_hits h4] fever_not_blank h4
  show ?thesis by (auto simp: numeral_3_eq_3)
qed

section \<open>The result limit\<close>

lemma str_nat_digits: "c \<in> set (str_nat n) \<Longrightarrow> 48 \<le> c \<and> c \<le> 57"
proof (induction n arbitrary: c rule: str_nat.induct)
  case (1 n)
  show ?case
  proof (cases "n < 10")
    case True
    with "1.prems" show ?thesis by (simp add: str_nat.simps [of n])
  next
    case False
    with "1.prems" have "c \<in> set (str_nat (n div 10)) \<or> c = 48 + n mod 10"
      by (auto simp: str_nat.simps [of n])
    then show ?thesis
    proof
      assume "c \<in> set (str_nat (n div 10))"
      with "1.IH" [OF False] show ?thesis .
    next
      assume "c = 48 + n mod 10"
      then show ?thesis by simp
    qed
  qed
qed

lemma str_nat_not_Nil: "str_nat n \<noteq> []"
  by (subst str_nat.simps) simp

lemma str_nat_inj: "str_nat m = str_nat n \<Longrightarrow> m = n"
proof (induction m arbitrary: n rule: str_nat.induct)
  case (1 m)
  show ?case
  proof (cases "m < 10")
    case m: True
    show ?thesis
    proof (cases "n < 10")
      case True
      with m "1.prems" show ?thesis by (simp add: str_nat.simps [of m] str_nat.simps [of n])
    next
      case False
      with m "1.prems" have "[48 + m] = str_nat (n div 10) @ [48 + n mod 10]"
        by (simp add: str_nat.simps [of m] str_nat.simps [of n])
      then have "str_nat (n div 10) = []" by (simp add: Cons_eq_append_conv)
      with str_nat_not_Nil show ?thesis by blast
    qed
  next
    case m: False
    show ?thesis
    proof (cases "n < 10")
      case True
      with m "1.prems" have "str_nat (m div 10) @ [48 + m mod 10] = [48 + n]"
        by (simp add: str_nat.simps [of m] str_nat.simps [of n])
      then have "str_nat (m div 10) = []" by (simp add: append_eq_Cons_conv)
      with str_nat_not_Nil show ?thesis by blast
    next
      case False
      with m "1.prems" have "str_nat (m div 10) @ [48 + m mod 10] = str_nat (n div 10) @ [48 + n mod 10]"
        by (simp add: str_nat.simps [of m] str_nat.simps [of n])
      then have "str_nat (m div 10) = str_nat (n div 10)" and "m mod 10 = n mod 10"
        by simp_all
      with "1.IH" [OF m] have "m div 10 = n div 10" and "m mod 10 = n mod 10" by blast+
      then show ?thesis by (metis div_mult_mod_eq)
    qed
  qed
qed

lemma str_int_inj: "str_int a = str_int b \<Longrightarrow> a = b"
proof -
  assume e: "str_int a = str_int b"
  have no_minus: "str_nat k \<noteq> 45 # t" for k t
  proof
    assume "str_nat k = 45 # t"
    then have "45 \<in> set (str_nat k)" by simp
    from str_nat_digits [OF this] show False by simp
  qed
  show "a = b"
  proof (cases "a < 0")
    case a: True
    show ?thesis
    proof (cases "b < 0")
      case True
      with a e have "str_nat (nat (- a)) = str_nat (nat (- b))" by (simp add: str_int_def)
      then have "nat (- a) = nat (- b)" by (rule str_nat_inj)
      with a True show ?thesis by simp
    next
      case False
      with a e no_minus [of "nat b" "str_nat (nat (- a))"] show ?thesis
        by (simp add: str_int_def)
    qed
  next
    case a: False
    show ?thesis
    proof (cases "b < 0")
      case True
      with a e no_minus [of "nat a" "str_nat (nat (- b))"] show ?thesis
        by (simp add: str_int_def)
    next
      case False
      with a e have "str_nat (nat a) = str_nat (nat b)" by (simp add: str_int_def)
      then have "nat a = nat b" by (rule str_nat_inj)
      with a False show ?thesis by simp
    qed
  qed
qed

lemma query_world_cases:
  "fst (query_literature ext w req) = w \<or>
   fst (query_literature ext w req) = fst (fetch_europepmc ext w (strip (symptoms req)) (top_k req)) \<or>
   fst (query_literature ext w req) =
     fst (get_embedding_model ext (fst (fetch_europepmc ext w (strip (symptoms req)) (top_k req))))"
  by (auto simp: query_literature_def Let_def split: prod.splits sum.splits)

lemma query_requests:
  assumes "strip (symptoms req) \<noteq> []"
  shows "requests_sent (fst (query_literature ext w req)) =
         requests_sent (fst (fetch_europepmc ext w (strip (symptoms req)) (top_k req)))"
  using assms
  by (auto simp: query_literature_def Let_def get_model_requests
      split: prod.splits sum.splits dest: arg_cong [where f = "\<lambda>p. requests_sent (fst p)"])

text \<open>
  A request with the result limit 0 is served like any other: the limit goes into the
  URL and the payload is returned. This contradicts claim C9 where it says that the limit
  of an accepted request is positive.
\<close>

theorem nonpositive_top_k_accepted:
  "\<not> 0 < top_k (new_QueryRequest (lit ''fever cough'') (Some 0)) \<and>
   query_literature (ext_plain (search_body [])) init_world
       (new_QueryRequest (lit ''fever cough'') (Some 0)) =
     (init_world\<lparr>requests_sent :=
        [lit ''https://www.ebi.ac.uk/europepmc/webservices/rest/search?query=fever+cough&format=json&pageSize=0'']\<rparr>,
      Inr \<lparr>summary = summary_placeholder 0, matches = [], citations = []\<rparr>)"
  by (simp add: query_literature_def new_QueryRequest_def strip_def isspace_def
      fetch_europepmc_def ext_plain_def ascii_quote_plus_def raise_for_status_def ok_response_def
      EUROPE_PMC_SEARCH_def str_int_def str_nat.simps Let_def search_body_hits bind_def
      get_embedding_model_def embeddings_enabled_def init_world_def lit_def summary_placeholder_def)

text \<open>
  Claim C9, amended. The result limit is an integer, 5 when the caller gives none and
  the caller's value otherwise, whatever its sign or size. For every request that passes
  validation the one URL requested carries its decimal rendering as the page size, and
  different limits have different renderings.
\<close>

theorem top_k_passed_through:
  "top_k (new_QueryRequest s None) = 5 \<and> top_k (new_QueryRequest s (Some k)) = k \<and>
   (strip (symptoms req) \<noteq> [] \<and> quote_plus ext (strip (symptoms req)) = Inr q \<longrightarrow>
      requests_sent (fst (query_literature ext w req)) =
        requests_sent w @ [EUROPE_PMC_SEARCH q (str_int (top_k req))]) \<and>
   (str_int a = str_int b \<longrightarrow> a = b)"
  by (auto simp: new_QueryRequest_def query_requests fetch_world dest: str_int_inj)

theorem top_k_passed_through_witness:
  "top_k (new_QueryRequest (lit ''fever cough'') None) = 5 \<and>
   top_k (new_QueryRequest (lit ''fever cough'') (Some 3)) = 3 \<and>
   strip (symptoms fever) \<noteq> [] \<and>
   quote_plus (ext_plain PNone) (strip (symptoms fever)) = Inr (lit ''fever+cough'') \<and>
   requests_sent (fst (query_literature (ext_plain PNone) init_world fever)) =
     requests_sent init_world @ [EUROPE_PMC_SEARCH (lit ''fever+cough'') (str_int (top_k fever))]"
proof -
  have h: "quote_plus (ext_plain PNone) (strip (symptoms fever)) = Inr (lit ''fever+cough'')"
    by (simp add: fever_stripped ext_plain_fields ascii_quote_plus_def) (simp add: lit_def)
  from top_k_passed_through [of "lit ''fever cough''" 3 fever "ext_plain PNone" "lit ''fever+cough''" init_world 0 0]
    fever_not_blank h
  show ?thesis by blast
qed

section \<open>Loading the model over the life of the process\<close>

lemma fetch_globals:
  "EMB_MODEL (fst (fetch_europepmc ext w query n)) = EMB_MODEL w"
  "EMB_LOADING (fst (fetch_europepmc ext w query n)) = EMB_LOADING w"
  "load_attempts (fst (fetch_europepmc ext w query n)) = load_attempts w"
  by (simp_all add: fetch_europepmc_def Let_def split: sum.splits)

lemma get_model_loaded:
  "EMB_MODEL w = Some m \<Longrightarrow>
   get_embedding_model ext w = (w, if embeddings_enabled ext then Some m else None)"
  by (simp add: get_embedding_model_def)

lemma query_loaded:
  assumes "EMB_MODEL w = Some m"
  shows "EMB_MODEL (fst (query_literature ext w req)) = Some m"
    and "load_attempts (fst (query_literature ext w req)) = load_attempts w"
proof -
  let ?w1 = "fst (fetch_europepmc ext w (strip (symptoms req)) (top_k req))"
  have "EMB_MODEL ?w1 = Some m" using assms by (simp add: fetch_globals)
  then have "fst (get_embedding_model ext ?w1) = ?w1" by (simp add: get_model_loaded)
  with query_world_cases [of ext w req]
  have "fst (query_literature ext w req) = w \<or> fst (query_literature ext w req) = ?w1"
    by auto
  with assms show "EMB_MODEL (fst (query_literature ext w req)) = Some m"
    and "load_attempts (fst (query_literature ext w req)) = load_attempts w"
    by (auto simp: fetch_globals)
qed

lemma serve_loaded:
  "EMB_MODEL w = Some m \<Longrightarrow>
   load_attempts (serve w rs) = load_attempts w \<and> EMB_MODEL (serve w rs) = Some m"
proof (induction rs arbitrary: w)
  case Nil
  then show ?case by simp
next
  case (Cons er rs)
  let ?w' = "fst (query_literature (fst er) w (snd er))"
  from query_loaded [OF Cons.prems, of "fst er" "snd er"]
  have "EMB_MODEL ?w' = Some m" and "load_attempts ?w' = load_attempts w" by simp_all
  with Cons.IH [of ?w'] show ?case by simp
qed

lemma query_fever_world:
  assumes "quote_plus ext = ascii_quote_plus"
    and "client_get ext = (\<lambda>url. Inr (ok_response (search_body [])))"
  shows "fst (query_literature ext w fever) =
         fst (get_embedding_model ext (w\<lparr>requests_sent := requests_sent w @ [fever_url]\<rparr>))"
proof -
  have "hits_loop ext [] [] [] = Inr ([], [])" by simp
  from query_ok [OF fever_not_blank fetch_fever [OF assms] search_body_hits this refl]
  show ?thesis by simp
qed

text \<open>
  Two requests in a process where embeddings are enabled and the import fails: the load
  is attempted by each of them. This contradicts claim C6, which allows one attempt.
\<close>

theorem failed_load_is_retried:
  "load_attempts
     (serve init_world
        [(ext_embed (Inl (lit ''No module named sentence_transformers'')) (search_body []), fever),
         (ext_embed (Inl (lit ''No module named sentence_transformers'')) (search_body []), fever)]) = 2"
  by (simp add: query_fever_world ext_embed_fields get_model_fresh init_world_def)

text \<open>
  A request that reaches the ranking step ends with a payload, in the world that
  \<open>get_embedding_model\<close> leaves.
\<close>

lemma query_reaches:
  assumes "reaches_ranking ext w req"
  shows "fst (query_literature ext w req) =
           fst (get_embedding_model ext
                  (fst (fetch_europepmc ext w (strip (symptoms req)) (top_k req))))"
    and "\<exists>p. snd (query_literature ext w req) = Inr p"
proof -
  from assms obtain data results abstracts where
    ne: "strip (symptoms req) \<noteq> []" and
    f: "snd (fetch_europepmc ext w (strip (symptoms req)) (top_k req)) = Inr data" and
    l: "bind (result_hits data) (\<lambda>hits. hits_loop ext hits [] []) = Inr (results, abstracts)"
    by (auto simp: reaches_ranking_def split: sum.splits)
  from l obtain hits where h: "result_hits data = Inr hits"
    and hl: "hits_loop ext hits [] [] = Inr (results, abstracts)"
    by (auto simp: bind_def split: sum.splits)
  from f have f': "fetch_europepmc ext w (strip (symptoms req)) (top_k req) =
      (fst (fetch_europepmc ext w (strip (symptoms req)) (top_k req)), Inr data)"
    by (simp add: prod_eq_iff)
  from query_ok [OF ne f' h hl refl]
  show "fst (query_literature ext w req) =
           fst (get_embedding_model ext
                  (fst (fetch_europepmc ext w (strip (symptoms req)) (top_k req))))"
    and "\<exists>p. snd (query_literature ext w req) = Inr p"
    by simp_all
qed

lemma query_attempts_load:
  assumes "reaches_ranking ext w req" "embeddings_enabled ext"
    and "EMB_MODEL w = None" "\<not> EMB_LOADING w"
  shows "load_attempts (fst (query_literature ext w req)) = load_attempts w + 1"
    and "\<not> EMB_LOADING (fst (query_literature ext w req))"
    and "SentenceTransformer ext = Inl e \<Longrightarrow> EMB_MODEL (fst (query_literature ext w req)) = None"
    and "SentenceTransformer ext = Inl e \<Longrightarrow>
         snd (get_embedding_model ext
                (fst (fetch_europepmc ext w (strip (symptoms req)) (top_k req)))) = None"
proof -
  let ?w1 = "fst (fetch_europepmc ext w (strip (symptoms req)) (top_k req))"
  have g: "EMB_MODEL ?w1 = None" "\<not> EMB_LOADING ?w1" "load_attempts ?w1 = load_attempts w"
    using assms(3,4) by (simp_all add: fetch_globals)
  note fresh = get_model_fresh [OF assms(2) g(1,2)]
  note q = query_reaches(1) [OF assms(1)]
  show "load_attempts (fst (query_literature ext w req)) = load_attempts w + 1"
    unfolding q fresh using g(3) by (simp split: sum.splits)
  show "\<not> EMB_LOADING (fst (query_literature ext w req))"
    unfolding q fresh using g(2) by (simp split: sum.splits)
  show "EMB_MODEL (fst (query_literature ext w req)) = None" if "SentenceTransformer ext = Inl e"
    unfolding q fresh using g(1) that by simp
  show "snd (get_embedding_model ext ?w1) = None" if "SentenceTransformer ext = Inl e"
    unfolding fresh using that by simp
qed

lemma reaches_fever:
  assumes "quote_plus ext = ascii_quote_plus"
    and "client_get ext = (\<lambda>url. Inr (ok_response (search_body [])))"
  shows "reaches_ranking ext w fever"
  by (simp add: reaches_ranking_def fever_not_blank fetch_fever [OF assms] search_body_hits bind_def)

text \<open>
  Claim C6, amended. A model that has been loaded is never loaded again: from a world
  in which the model is set, no sequence of requests attempts a load, and the model
  stays. A failed load is not remembered: the request that made it gets no model and
  still ends with a payload, and the next request that reaches the ranking step with
  embeddings enabled attempts the load again, so that the two requests make two
  attempts.
\<close>

theorem loaded_model_is_kept:
  "(EMB_MODEL w = Some m \<longrightarrow>
      load_attempts (serve w rs) = load_attempts w \<and> EMB_MODEL (serve w rs) = Some m) \<and>
   (embeddings_enabled ext1 \<and> embeddings_enabled ext2 \<and> EMB_MODEL w' = None \<and>
    \<not> EMB_LOADING w' \<and> SentenceTransformer ext1 = Inl e \<and>
    reaches_ranking ext1 w' r1 \<and>
    reaches_ranking ext2 (fst (query_literature ext1 w' r1)) r2 \<longrightarrow>
      snd (get_embedding_model ext1
             (fst (fetch_europepmc ext1 w' (strip (symptoms r1)) (top_k r1)))) = None \<and>
      (\<exists>p. snd (query_literature ext1 w' r1) = Inr p) \<and>
      EMB_MODEL (fst (query_literature ext1 w' r1)) = None \<and>
      load_attempts (fst (query_literature ext1 w' r1)) = load_attempts w' + 1 \<and>
      load_attempts (serve w' [(ext1, r1), (ext2, r2)]) = load_attempts w' + 2)"
proof (intro conjI impI)
  assume "EMB_MODEL w = Some m"
  then show "load_attempts (serve w rs) = load_attempts w" and "EMB_MODEL (serve w rs) = Some m"
    by (simp_all add: serve_loaded)
next
  assume a: "embeddings_enabled ext1 \<and> embeddings_enabled ext2 \<and> EMB_MODEL w' = None \<and>
    \<not> EMB_LOADING w' \<and> SentenceTransformer ext1 = Inl e \<and>
    reaches_ranking ext1 w' r1 \<and>
    reaches_ranking ext2 (fst (query_literature ext1 w' r1)) r2"
  let ?w2 = "fst (query_literature ext1 w' r1)"
  from a have r1: "reaches_ranking ext1 w' r1" and e1: "embeddings_enabled ext1"
    and n: "EMB_MODEL w' = None" and l: "\<not> EMB_LOADING w'"
    and f: "SentenceTransformer ext1 = Inl e"
    and r2: "reaches_ranking ext2 ?w2 r2" and e2: "embeddings_enabled ext2"
    by simp_all
  note first = query_attempts_load [OF r1 e1 n l]
  show "snd (get_embedding_model ext1
             (fst (fetch_europepmc ext1 w' (strip (symptoms r1)) (top_k r1)))) = None"
    using first(4) [OF f] .
  show "\<exists>p. snd (query_literature ext1 w' r1) = Inr p"
    using query_reaches(2) [OF r1] .
  show none: "EMB_MODEL ?w2 = None" using first(3) [OF f] .
  show one: "load_attempts ?w2 = load_attempts w' + 1" using first(1) .
  from query_attempts_load(1) [OF r2 e2 none first(2)] one
  show "load_attempts (serve w' [(ext1, r1), (ext2, r2)]) = load_attempts w' + 2"
    by simp
qed

theorem loaded_model_is_kept_witness:
  "EMB_MODEL (init_world\<lparr>EMB_MODEL := Some parity_model\<rparr>) = Some parity_model \<and>
   load_attempts (serve (init_world\<lparr>EMB_MODEL := Some parity_model\<rparr>)
      [(ext_embed (Inl (lit ''No module named sentence_transformers'')) (search_body []), fever)]) =
     load_attempts (init_world\<lparr>EMB_MODEL := Some parity_model\<rparr>) \<and>
   embeddings_enabled (ext_embed (Inl (lit ''No module named sentence_transformers'')) (search_body [])) \<and>
   EMB_MODEL init_world = None \<and> \<not> EMB_LOADING init_world \<and>
   SentenceTransformer (ext_embed (Inl (lit ''No module named sentence_transformers'')) (search_body []))
     = Inl (lit ''No module named sentence_transformers'') \<and>
   reaches_ranking (ext_embed (Inl (lit ''No module named sentence_transformers'')) (search_body []))
     init_world fever \<and>
   reaches_ranking (ext_embed (Inl (lit ''No module named sentence_transformers'')) (search_body []))
     (fst (query_literature
        (ext_embed (Inl (lit ''No module named sentence_transformers'')) (search_body []))
        init_world fever)) fever \<and>
   EMB_MODEL (fst (query_literature
        (ext_embed (Inl (lit ''No module named sentence_transformers'')) (search_body []))
        init_world fever)) = None \<and>
   load_attempts
     (serve init_world
        [(ext_embed (Inl (lit ''No module named sentence_transformers'')) (search_body []), fever),
         (ext_embed (Inl (lit ''No module named sentence_transformers'')) (search_body []), fever)]) =
     load_attempts init_world + 2"
proof -
  let ?ext = "ext_embed (Inl (lit ''No module named sentence_transformers'')) (search_body [])"
  have r: "reaches_ranking ?ext w fever" for w
    by (rule reaches_fever) (simp_all add: ext_embed_fields)
  have i: "EMB_MODEL init_world = None" "\<not> EMB_LOADING init_world"
    "EMB_MODEL (init_world\<lparr>EMB_MODEL := Some parity_model\<rparr>) = Some parity_model"
    by (simp_all add: init_world_def)
  have e: "embeddings_enabled ?ext"
    "SentenceTransformer ?ext = Inl (lit ''No module named sentence_transformers'')"
    by (simp_all add: ext_embed_fields)
  from loaded_model_is_kept [of "init_world\<lparr>EMB_MODEL := Some parity_model\<rparr>" parity_model
      "[(?ext, fever)]" ?ext ?ext init_world "lit ''No module named sentence_transformers''"
      fever fever] r i e
  show ?thesis by blast
qed

end
